theory Spec2Isabelle
  imports Main "HOL-Library.AList"
begin

section \<open>JSON values, attribute values and resource data\<close>

text \<open>
  Request payloads and decoded response bodies are JSON trees. A Go
  \<^verbatim>\<open>map[string]interface{}\<close> is an association list with distinct keys;
  \<^verbatim>\<open>m[k] = v\<close> is \<^const>\<open>AList.update\<close> and \<^verbatim>\<open>len(m) == 0\<close> is
  \<open>m = []\<close>. JSON numbers are held as integers: every numeric field the
  provider reads or writes (coordinates, counts, sizes) is integral.
\<close>

datatype json =
    JNull
  | JBool bool
  | JNumber int
  | JString string
  | JArray "json list"
  | JObject "(string \<times> json) list"

type_synonym jmap = "(string \<times> json) list"

text \<open>The values a schema attribute can hold (TypeString, TypeInt, TypeBool,
  TypeMap of strings, TypeList of strings).\<close>

datatype attr =
    AString string
  | AInt int
  | ABool bool
  | AMap "(string \<times> string) list"
  | AList "string list"

text \<open>
  \<^verbatim>\<open>schema.ResourceData\<close> as the callbacks use it: the resource ID, the
  attribute values (defaults already applied by the SDK), and the per-key
  change flag that \<^verbatim>\<open>d.HasChange\<close> reports. \<^verbatim>\<open>HasChange\<close> compares prior
  state with the planned values, so \<^verbatim>\<open>d.Set\<close> and \<^verbatim>\<open>d.SetId\<close> leave it alone.
\<close>

record ResourceData =
  rid :: string
  attrs :: "string \<Rightarrow> attr option"
  HasChange :: "string \<Rightarrow> bool"

definition SetId :: "string \<Rightarrow> ResourceData \<Rightarrow> ResourceData" where
  "SetId v d = d\<lparr>rid := v\<rparr>"

definition Set_attr :: "string \<Rightarrow> attr \<Rightarrow> ResourceData \<Rightarrow> ResourceData" where
  "Set_attr k v d = d\<lparr>attrs := (attrs d)(k \<mapsto> v)\<rparr>"

text \<open>\<^verbatim>\<open>d.Get(k).(T)\<close>: the value, or the zero value of the type when unset.\<close>

definition Get_string :: "ResourceData \<Rightarrow> string \<Rightarrow> string" where
  "Get_string d k = (case attrs d k of Some (AString s) \<Rightarrow> s | _ \<Rightarrow> [])"

definition Get_int :: "ResourceData \<Rightarrow> string \<Rightarrow> int" where
  "Get_int d k = (case attrs d k of Some (AInt i) \<Rightarrow> i | _ \<Rightarrow> 0)"

definition Get_bool :: "ResourceData \<Rightarrow> string \<Rightarrow> bool" where
  "Get_bool d k = (case attrs d k of Some (ABool b) \<Rightarrow> b | _ \<Rightarrow> False)"

definition Get_map :: "ResourceData \<Rightarrow> string \<Rightarrow> (string \<times> string) list" where
  "Get_map d k = (case attrs d k of Some (AMap m) \<Rightarrow> m | _ \<Rightarrow> [])"

definition Get_list :: "ResourceData \<Rightarrow> string \<Rightarrow> string list" where
  "Get_list d k = (case attrs d k of Some (AList xs) \<Rightarrow> xs | _ \<Rightarrow> [])"

text \<open>\<^verbatim>\<open>d.GetOk(k)\<close>: the value and whether it is set to a non-zero value.\<close>

definition GetOk_string :: "ResourceData \<Rightarrow> string \<Rightarrow> string \<times> bool" where
  "GetOk_string d k = (Get_string d k, Get_string d k \<noteq> [])"

definition GetOk_int :: "ResourceData \<Rightarrow> string \<Rightarrow> int \<times> bool" where
  "GetOk_int d k = (Get_int d k, Get_int d k \<noteq> 0)"

definition GetOk_map :: "ResourceData \<Rightarrow> string \<Rightarrow> (string \<times> string) list \<times> bool" where
  "GetOk_map d k = (Get_map d k, Get_map d k \<noteq> [])"

definition GetOk_list :: "ResourceData \<Rightarrow> string \<Rightarrow> string list \<times> bool" where
  "GetOk_list d k = (Get_list d k, Get_list d k \<noteq> [])"

section \<open>The HTTP collaborator\<close>

text \<open>
  A response body is what \<^verbatim>\<open>encoding/json\<close> makes of its bytes: \<open>Doc j\<close> when
  they are the JSON document \<open>j\<close>, \<open>Raw s\<close> (the bytes) when they are not JSON.
\<close>

datatype body = Raw string | Doc json

record request =
  Method :: string
  URL :: string
  payload :: "jmap option"

datatype http_result = Failed | Response nat body

text \<open>
  The world outside the provider: \<open>buildable\<close> says whether \<^verbatim>\<open>net/http\<close>
  accepts a request (the URL parses), \<open>respond\<close> gives the outcome of sending
  a request, as a function of every request sent so far (the last one is the
  current one), so the controller may change its answers over time.
\<close>

record world =
  buildable :: "request \<Rightarrow> bool"
  respond :: "request list \<Rightarrow> http_result"

record ProviderConfig =
  Host :: string

text \<open>The callback's state: the resource data and the requests sent so far.\<close>

record state =
  res :: ResourceData
  sent :: "request list"

definition http_NewRequest :: "world \<Rightarrow> string \<Rightarrow> string \<Rightarrow> jmap option \<Rightarrow> request option" where
  "http_NewRequest w m u b =
     (let req = \<lparr>Method = m, URL = u, payload = b\<rparr>
      in if buildable w req then Some req else None)"

definition client_Do :: "world \<Rightarrow> request \<Rightarrow> state \<Rightarrow> http_result \<times> state" where
  "client_Do w req s = (respond w (sent s @ [req]), s\<lparr>sent := sent s @ [req]\<rparr>)"

text \<open>\<^verbatim>\<open>http.Get\<close> and \<^verbatim>\<open>http.Post\<close> build and send in one call and report
  either failure as one error.\<close>

definition http_Get :: "world \<Rightarrow> string \<Rightarrow> state \<Rightarrow> http_result \<times> state" where
  "http_Get w u s =
     (case http_NewRequest w ''GET'' u None of
        None \<Rightarrow> (Failed, s)
      | Some req \<Rightarrow> client_Do w req s)"

definition http_Post :: "world \<Rightarrow> string \<Rightarrow> jmap option \<Rightarrow> state \<Rightarrow> http_result \<times> state" where
  "http_Post w u b s =
     (case http_NewRequest w ''POST'' u b of
        None \<Rightarrow> (Failed, s)
      | Some req \<Rightarrow> client_Do w req s)"

text \<open>\<^verbatim>\<open>json.Marshal\<close> of a struct or map of strings, integers, string lists
  and nested maps cannot fail; the request body is the marshalled tree.\<close>

definition json_Marshal :: "jmap \<Rightarrow> jmap option" where
  "json_Marshal m = Some m"

section \<open>Errors\<close>

datatype operation = OpCreate | OpStart | OpRead | OpUpdate | OpDelete

text \<open>What an error message shows of the response body: nothing, the raw
  body, or the body decoded as a mapping.\<close>

datatype detail = NoBody | RawBody body | ParsedBody jmap

datatype error =
    MarshalError
  | RequestError operation
  | TransportError operation
  | StatusError operation nat detail
  | DecodeError operation
  | MissingNodeId
  | InvalidImportId string
  | IndexOutOfRange

type_synonym callback = "world \<Rightarrow> ProviderConfig \<Rightarrow> state \<Rightarrow> error option \<times> state"

definition set_id :: "string \<Rightarrow> state \<Rightarrow> state" where
  "set_id v s = s\<lparr>res := SetId v (res s)\<rparr>"

definition set_attr :: "string \<Rightarrow> attr \<Rightarrow> state \<Rightarrow> state" where
  "set_attr k v s = s\<lparr>res := Set_attr k v (res s)\<rparr>"

definition nodes_url :: "string \<Rightarrow> string \<Rightarrow> string" where
  "nodes_url host projectID = host @ ''/v2/projects/'' @ projectID @ ''/nodes''"

definition node_url :: "string \<Rightarrow> string \<Rightarrow> string \<Rightarrow> string" where
  "node_url host projectID nodeID = host @ ''/v2/projects/'' @ projectID @ ''/nodes/'' @ nodeID"

definition start_url :: "string \<Rightarrow> string \<Rightarrow> string \<Rightarrow> string" where
  "start_url host projectID nodeID = node_url host projectID nodeID @ ''/start''"

definition template_url :: "string \<Rightarrow> string \<Rightarrow> string \<Rightarrow> string" where
  "template_url host projectID templateID =
     host @ ''/v2/projects/'' @ projectID @ ''/templates/'' @ templateID"

section \<open>Decoding response bodies\<close>

text \<open>Decoding into \<^verbatim>\<open>map[string]interface{}\<close>, error ignored (the creation
  error path): a JSON object gives its mapping, anything else leaves the nil map.\<close>

definition decode_map_lenient :: "body \<Rightarrow> jmap" where
  "decode_map_lenient b = (case b of Doc (JObject kv) \<Rightarrow> kv | _ \<Rightarrow> [])"

text \<open>Decoding into \<^verbatim>\<open>map[string]interface{}\<close>, error checked: \<open>null\<close> leaves
  the nil map without an error, any other non-object fails.\<close>

definition decode_map :: "body \<Rightarrow> jmap option" where
  "decode_map b =
     (case b of Doc (JObject kv) \<Rightarrow> Some kv | Doc JNull \<Rightarrow> Some [] | _ \<Rightarrow> None)"

text \<open>A struct field of type string or int: absent or \<open>null\<close> leaves the zero
  value, a value of another JSON type is a decoding error (\<open>None\<close>). Keys are
  matched by their exact names.\<close>

definition string_field :: "jmap \<Rightarrow> string \<Rightarrow> string option" where
  "string_field kv k =
     (case map_of kv k of
        None \<Rightarrow> Some []
      | Some JNull \<Rightarrow> Some []
      | Some (JString s) \<Rightarrow> Some s
      | Some _ \<Rightarrow> None)"

definition int_field :: "jmap \<Rightarrow> string \<Rightarrow> int option" where
  "int_field kv k =
     (case map_of kv k of
        None \<Rightarrow> Some 0
      | Some JNull \<Rightarrow> Some 0
      | Some (JNumber n) \<Rightarrow> Some n
      | Some _ \<Rightarrow> None)"

text \<open>\<^verbatim>\<open>m[k].(string)\<close> with the comma-ok form.\<close>

definition assert_string :: "jmap \<Rightarrow> string \<Rightarrow> string \<times> bool" where
  "assert_string kv k =
     (case map_of kv k of Some (JString s) \<Rightarrow> (s, True) | _ \<Rightarrow> ([], False))"

definition assert_number :: "jmap \<Rightarrow> string \<Rightarrow> int \<times> bool" where
  "assert_number kv k =
     (case map_of kv k of Some (JNumber n) \<Rightarrow> (n, True) | _ \<Rightarrow> (0, False))"

definition assert_object :: "jmap \<Rightarrow> string \<Rightarrow> jmap \<times> bool" where
  "assert_object kv k =
     (case map_of kv k of Some (JObject m) \<Rightarrow> (m, True) | _ \<Rightarrow> ([], False))"

text \<open>The guarded map assignment \<^verbatim>\<open>if c { m[k] = v }\<close>.\<close>

definition assign_if :: "bool \<Rightarrow> string \<Rightarrow> json \<Rightarrow> jmap \<Rightarrow> jmap" where
  "assign_if c k v m = (if c then AList.update k v m else m)"

text \<open>The \<^verbatim>\<open>omitempty\<close> tag: a zero value is left out of the marshalled object.\<close>

definition omitempty_string :: "string \<Rightarrow> string \<Rightarrow> jmap" where
  "omitempty_string k v = (if v = [] then [] else [(k, JString v)])"

definition omitempty_int :: "string \<Rightarrow> int \<Rightarrow> jmap" where
  "omitempty_int k v = (if v = 0 then [] else [(k, JNumber v)])"

section \<open>Cloud nodes\<close>

record Cloud =
  Name :: string
  NodeType :: string
  ComputeID :: string
  NodeID :: string
  X :: int
  Y :: int
  Symbol :: string

definition marshal_Cloud :: "Cloud \<Rightarrow> jmap" where
  "marshal_Cloud c =
     [(''name'', JString (Name c)), (''node_type'', JString (NodeType c))]
     @ omitempty_string ''compute_id'' (ComputeID c)
     @ omitempty_string ''node_id'' (NodeID c)
     @ omitempty_int ''x'' (X c)
     @ omitempty_int ''y'' (Y c)
     @ omitempty_string ''symbol'' (Symbol c)"

definition decode_Cloud :: "body \<Rightarrow> Cloud option" where
  "decode_Cloud b =
     (case b of
        Doc JNull \<Rightarrow>
          Some \<lparr>Name = [], NodeType = [], ComputeID = [], NodeID = [], X = 0, Y = 0, Symbol = []\<rparr>
      | Doc (JObject kv) \<Rightarrow>
          Option.bind (string_field kv ''name'') (\<lambda>n.
          Option.bind (string_field kv ''node_type'') (\<lambda>t.
          Option.bind (string_field kv ''compute_id'') (\<lambda>c.
          Option.bind (string_field kv ''node_id'') (\<lambda>i.
          Option.bind (int_field kv ''x'') (\<lambda>x.
          Option.bind (int_field kv ''y'') (\<lambda>y.
          Option.bind (string_field kv ''symbol'') (\<lambda>sy.
            Some \<lparr>Name = n, NodeType = t, ComputeID = c, NodeID = i, X = x, Y = y,
                  Symbol = sy\<rparr>)))))))
      | _ \<Rightarrow> None)"

text \<open>The struct the creation request marshals (source lines 82 to 95).\<close>

definition cloud_create_payload :: "ResourceData \<Rightarrow> jmap" where
  "cloud_create_payload d =
     (let name = Get_string d ''name'';
          computeID = Get_string d ''compute_id'';
          x = Get_int d ''x'';
          y = Get_int d ''y'';
          symbol = Get_string d ''symbol'';
          cloud = \<lparr>Name = name, NodeType = ''cloud'', ComputeID = computeID, NodeID = [],
                   X = x, Y = y, Symbol = symbol\<rparr>
      in marshal_Cloud cloud)"

definition resourceGns3CloudCreate :: callback where
  "resourceGns3CloudCreate w config s =
     (let d = res s;
          host = Host config;
          projectID = Get_string d ''project_id''
      in case json_Marshal (cloud_create_payload d) of
           None \<Rightarrow> (Some MarshalError, s)
         | Some data \<Rightarrow>
             (case http_Post w (nodes_url host projectID) (Some data) s of
                (Failed, s1) \<Rightarrow> (Some (TransportError OpCreate), s1)
              | (Response status b, s1) \<Rightarrow>
                  if status \<noteq> 201
                  then (Some (StatusError OpCreate status (ParsedBody (decode_map_lenient b))), s1)
                  else (case decode_Cloud b of
                          None \<Rightarrow> (Some (DecodeError OpCreate), s1)
                        | Some createdCloud \<Rightarrow>
                            if NodeID createdCloud = [] then (Some MissingNodeId, s1)
                            else (None, set_attr ''cloud_id'' (AString (NodeID createdCloud))
                                          (set_id (NodeID createdCloud) s1)))))"

definition resourceGns3CloudRead :: callback where
  "resourceGns3CloudRead w config s =
     (let d = res s;
          host = Host config;
          projectID = Get_string d ''project_id'';
          nodeID = rid d
      in case http_Get w (node_url host projectID nodeID) s of
           (Failed, s1) \<Rightarrow> (Some (TransportError OpRead), s1)
         | (Response status b, s1) \<Rightarrow>
             if status = 404 then (None, set_id [] s1)
             else if status \<noteq> 200 then (Some (StatusError OpRead status (RawBody b)), s1)
             else (None, s1))"

definition cloud_updateData :: "ResourceData \<Rightarrow> jmap" where
  "cloud_updateData d =
     (let u0 = [];
          u1 = assign_if (HasChange d ''name'') ''name'' (JString (Get_string d ''name'')) u0;
          u2 = assign_if (HasChange d ''compute_id'') ''compute_id'' (JString (Get_string d ''compute_id'')) u1;
          u3 = assign_if (HasChange d ''x'') ''x'' (JNumber (Get_int d ''x'')) u2;
          u4 = assign_if (HasChange d ''y'') ''y'' (JNumber (Get_int d ''y'')) u3;
          u5 = assign_if (HasChange d ''symbol'') ''symbol'' (JString (Get_string d ''symbol'')) u4
      in u5)"

definition resourceGns3CloudUpdate :: callback where
  "resourceGns3CloudUpdate w config s =
     (let d = res s;
          host = Host config;
          projectID = Get_string d ''project_id'';
          cloudID = rid d;
          updateData = cloud_updateData d
      in if updateData = [] then (None, s)
         else (case json_Marshal updateData of
                 None \<Rightarrow> (Some MarshalError, s)
               | Some updateBody \<Rightarrow>
                   (case http_NewRequest w ''PUT'' (node_url host projectID cloudID) (Some updateBody) of
                      None \<Rightarrow> (Some (RequestError OpUpdate), s)
                    | Some req \<Rightarrow>
                        (case client_Do w req s of
                           (Failed, s1) \<Rightarrow> (Some (TransportError OpUpdate), s1)
                         | (Response status b, s1) \<Rightarrow>
                             if status \<noteq> 200
                             then (Some (StatusError OpUpdate status (RawBody b)), s1)
                             else resourceGns3CloudRead w config s1))))"

definition resourceGns3CloudDelete :: callback where
  "resourceGns3CloudDelete w config s =
     (let d = res s;
          host = Host config;
          projectID = Get_string d ''project_id'';
          nodeID = rid d
      in case http_NewRequest w ''DELETE'' (node_url host projectID nodeID) None of
           None \<Rightarrow> (Some (RequestError OpDelete), s)
         | Some req \<Rightarrow>
             (case client_Do w req s of
                (Failed, s1) \<Rightarrow> (Some (TransportError OpDelete), s1)
              | (Response status b, s1) \<Rightarrow>
                  if status \<noteq> 204 then (Some (StatusError OpDelete status NoBody), s1)
                  else (None, set_id [] s1)))"

section \<open>Switch nodes\<close>

text \<open>The \<^verbatim>\<open>Switch\<close> struct has the fields and JSON tags of \<^verbatim>\<open>Cloud\<close>.\<close>

type_synonym Switch = Cloud

definition marshal_Switch :: "Switch \<Rightarrow> jmap" where
  "marshal_Switch sw = marshal_Cloud sw"

definition decode_Switch :: "body \<Rightarrow> Switch option" where
  "decode_Switch b = decode_Cloud b"

definition switch_create_payload :: "ResourceData \<Rightarrow> jmap" where
  "switch_create_payload d =
     (let name = Get_string d ''name'';
          computeID = Get_string d ''compute_id'';
          x = Get_int d ''x'';
          y = Get_int d ''y'';
          symbol = Get_string d ''symbol'';
          sw = \<lparr>Name = name, NodeType = ''ethernet_switch'', ComputeID = computeID, NodeID = [],
                X = x, Y = y, Symbol = symbol\<rparr>
      in marshal_Switch sw)"

definition resourceGns3SwitchCreate :: callback where
  "resourceGns3SwitchCreate w config s =
     (let d = res s;
          host = Host config;
          projectID = Get_string d ''project_id''
      in case json_Marshal (switch_create_payload d) of
           None \<Rightarrow> (Some MarshalError, s)
         | Some data \<Rightarrow>
             (case http_Post w (nodes_url host projectID) (Some data) s of
                (Failed, s1) \<Rightarrow> (Some (TransportError OpCreate), s1)
              | (Response status b, s1) \<Rightarrow>
                  if status \<noteq> 201
                  then (Some (StatusError OpCreate status (ParsedBody (decode_map_lenient b))), s1)
                  else (case decode_Switch b of
                          None \<Rightarrow> (Some (DecodeError OpCreate), s1)
                        | Some createdSwitch \<Rightarrow>
                            if NodeID createdSwitch = [] then (Some MissingNodeId, s1)
                            else (None, set_attr ''switch_id'' (AString (NodeID createdSwitch))
                                          (set_id (NodeID createdSwitch) s1)))))"

definition resourceGns3SwitchRead :: callback where
  "resourceGns3SwitchRead w config s =
     (let d = res s;
          host = Host config;
          projectID = Get_string d ''project_id'';
          nodeID = rid d
      in case http_Get w (node_url host projectID nodeID) s of
           (Failed, s1) \<Rightarrow> (Some (TransportError OpRead), s1)
         | (Response status b, s1) \<Rightarrow>
             if status = 404 then (None, set_id [] s1)
             else if status \<noteq> 200 then (Some (StatusError OpRead status (RawBody b)), s1)
             else (None, s1))"

definition switch_updateData :: "ResourceData \<Rightarrow> jmap" where
  "switch_updateData d =
     (let u0 = [];
          u1 = assign_if (HasChange d ''name'') ''name'' (JString (Get_string d ''name'')) u0;
          u2 = assign_if (HasChange d ''compute_id'') ''compute_id'' (JString (Get_string d ''compute_id'')) u1;
          u3 = assign_if (HasChange d ''x'') ''x'' (JNumber (Get_int d ''x'')) u2;
          u4 = assign_if (HasChange d ''y'') ''y'' (JNumber (Get_int d ''y'')) u3
      in u4)"

definition resourceGns3SwitchUpdate :: callback where
  "resourceGns3SwitchUpdate w config s =
     (let d = res s;
          host = Host config;
          projectID = Get_string d ''project_id'';
          switchID = rid d;
          updateData = switch_updateData d
      in if updateData = [] then (None, s)
         else (case json_Marshal updateData of
                 None \<Rightarrow> (Some MarshalError, s)
               | Some updateBody \<Rightarrow>
                   (case http_NewRequest w ''PUT'' (node_url host projectID switchID) (Some updateBody) of
                      None \<Rightarrow> (Some (RequestError OpUpdate), s)
                    | Some req \<Rightarrow>
                        (case client_Do w req s of
                           (Failed, s1) \<Rightarrow> (Some (TransportError OpUpdate), s1)
                         | (Response status b, s1) \<Rightarrow>
                             if status \<noteq> 200
                             then (Some (StatusError OpUpdate status (RawBody b)), s1)
                             else resourceGns3SwitchRead w config s1))))"

definition resourceGns3SwitchDelete :: callback where
  "resourceGns3SwitchDelete w config s =
     (let d = res s;
          host = Host config;
          projectID = Get_string d ''project_id'';
          nodeID = rid d
      in case http_NewRequest w ''DELETE'' (node_url host projectID nodeID) None of
           None \<Rightarrow> (Some (RequestError OpDelete), s)
         | Some req \<Rightarrow>
             (case client_Do w req s of
                (Failed, s1) \<Rightarrow> (Some (TransportError OpDelete), s1)
              | (Response status b, s1) \<Rightarrow>
                  if status \<noteq> 204 then (Some (StatusError OpDelete status NoBody), s1)
                  else (None, set_id [] s1)))"

section \<open>Template-instantiated nodes\<close>

text \<open>
  \<^verbatim>\<open>d.Set(k, v)\<close> with a decoded JSON value, its error ignored as the
  callbacks do: a value of the attribute's type is stored, \<^verbatim>\<open>nil\<close> (key absent
  or \<open>null\<close>) stores the zero value, a value of another type is refused by the
  SDK and the attribute keeps its value.
\<close>

definition Set_string_from :: "string \<Rightarrow> json option \<Rightarrow> state \<Rightarrow> state" where
  "Set_string_from k v s =
     (case v of
        None \<Rightarrow> set_attr k (AString []) s
      | Some JNull \<Rightarrow> set_attr k (AString []) s
      | Some (JString x) \<Rightarrow> set_attr k (AString x) s
      | Some _ \<Rightarrow> s)"

definition read_xy :: "jmap \<Rightarrow> state \<Rightarrow> state" where
  "read_xy node s =
     (let s1 = (case assert_number node ''x'' of
                  (xVar, ok) \<Rightarrow> if ok then set_attr ''x'' (AInt xVar) s else s);
          s2 = (case assert_number node ''y'' of
                  (yVar, ok) \<Rightarrow> if ok then set_attr ''y'' (AInt yVar) s1 else s1)
      in s2)"

definition template_create_payload :: "ResourceData \<Rightarrow> jmap" where
  "template_create_payload d =
     (let templateName = Get_string d ''name'';
          computeID = Get_string d ''compute_id'';
          x = Get_int d ''x'';
          y = Get_int d ''y'';
          templateData = [(''name'', JString templateName), (''compute_id'', JString computeID),
                          (''x'', JNumber x), (''y'', JNumber y)]
      in templateData)"

text \<open>The start step of the template Create (source lines 111 to 122).\<close>

definition template_start :: "world \<Rightarrow> string \<Rightarrow> string \<Rightarrow> string \<Rightarrow> state \<Rightarrow> error option \<times> state" where
  "template_start w host projectID templateNodeID s2 =
     (if Get_bool (res s2) ''start''
      then (case http_Post w (start_url host projectID templateNodeID) None s2 of
              (Failed, s3) \<Rightarrow> (Some (TransportError OpStart), s3)
            | (Response startStatus sb, s3) \<Rightarrow>
                if startStatus \<noteq> 200
                then (Some (StatusError OpStart startStatus NoBody), s3)
                else (None, s3))
      else (None, s2))"

definition resourceGns3TemplateCreate :: callback where
  "resourceGns3TemplateCreate w config s =
     (let d = res s;
          host = Host config;
          projectID = Get_string d ''project_id'';
          templateID = Get_string d ''template_id''
      in case json_Marshal (template_create_payload d) of
           None \<Rightarrow> (Some MarshalError, s)
         | Some nodeBody \<Rightarrow>
             (case http_Post w (template_url host projectID templateID) (Some nodeBody) s of
                (Failed, s1) \<Rightarrow> (Some (TransportError OpCreate), s1)
              | (Response status b, s1) \<Rightarrow>
                  if status \<noteq> 201 then (Some (StatusError OpCreate status NoBody), s1)
                  else (case decode_map b of
                          None \<Rightarrow> (Some (DecodeError OpCreate), s1)
                        | Some createdTemplate \<Rightarrow>
                            (case assert_string createdTemplate ''node_id'' of
                               (templateNodeID, exists) \<Rightarrow>
                                 if \<not> exists \<or> templateNodeID = [] then (Some MissingNodeId, s1)
                                 else template_start w host projectID templateNodeID
                                        (set_id templateNodeID s1)))))"

definition resourceGns3TemplateRead :: callback where
  "resourceGns3TemplateRead w config s =
     (let d = res s;
          host = Host config;
          projectID = Get_string d ''project_id'';
          nodeID = rid d
      in case http_Get w (node_url host projectID nodeID) s of
           (Failed, s1) \<Rightarrow> (Some (TransportError OpRead), s1)
         | (Response status b, s1) \<Rightarrow>
             if status = 404 then (None, set_id [] s1)
             else if status \<noteq> 200 then (Some (StatusError OpRead status (RawBody b)), s1)
             else (case decode_map b of
                     None \<Rightarrow> (Some (DecodeError OpRead), s1)
                   | Some node \<Rightarrow>
                       (None, read_xy node (Set_string_from ''name'' (map_of node ''name'') s1))))"

definition template_updateData :: "ResourceData \<Rightarrow> jmap" where
  "template_updateData d =
     [(''name'', JString (Get_string d ''name'')),
      (''compute_id'', JString (Get_string d ''compute_id'')),
      (''x'', JNumber (Get_int d ''x'')),
      (''y'', JNumber (Get_int d ''y''))]"

definition resourceGns3TemplateUpdate :: callback where
  "resourceGns3TemplateUpdate w config s =
     (let d = res s;
          host = Host config;
          projectID = Get_string d ''project_id'';
          nodeID = rid d;
          updateData = template_updateData d
      in case json_Marshal updateData of
           None \<Rightarrow> (Some MarshalError, s)
         | Some data \<Rightarrow>
             (case http_NewRequest w ''PUT'' (node_url host projectID nodeID) (Some data) of
                None \<Rightarrow> (Some (RequestError OpUpdate), s)
              | Some req \<Rightarrow>
                  (case client_Do w req s of
                     (Failed, s1) \<Rightarrow> (Some (TransportError OpUpdate), s1)
                   | (Response status b, s1) \<Rightarrow>
                       if status \<noteq> 200 then (Some (StatusError OpUpdate status NoBody), s1)
                       else resourceGns3TemplateRead w config s1)))"

definition resourceGns3TemplateDelete :: callback where
  "resourceGns3TemplateDelete w config s =
     (let d = res s;
          host = Host config;
          projectID = Get_string d ''project_id'';
          nodeID = rid d
      in case http_NewRequest w ''DELETE'' (node_url host projectID nodeID) None of
           None \<Rightarrow> (Some (RequestError OpDelete), s)
         | Some req \<Rightarrow>
             (case client_Do w req s of
                (Failed, s1) \<Rightarrow> (Some (TransportError OpDelete), s1)
              | (Response status b, s1) \<Rightarrow>
                  if status = 404 then (None, set_id [] s1)
                  else if status \<noteq> 204 then (Some (StatusError OpDelete status (RawBody b)), s1)
                  else (None, set_id [] s1)))"

section \<open>Docker nodes\<close>

record DockerProperties =
  Image :: string
  Environment :: "string option"
  ConsoleType :: string
  ExtraVolumes :: "string list"
  StartCommand :: "string option"

record DockerNode =
  Name :: string
  NodeType :: string
  ComputeID :: string
  Properties :: DockerProperties
  NodeID :: string
  X :: int
  Y :: int

definition omitempty_ptr :: "string \<Rightarrow> string option \<Rightarrow> jmap" where
  "omitempty_ptr k v = (case v of None \<Rightarrow> [] | Some x \<Rightarrow> [(k, JString x)])"

definition omitempty_list :: "string \<Rightarrow> string list \<Rightarrow> jmap" where
  "omitempty_list k v = (if v = [] then [] else [(k, JArray (map JString v))])"

definition marshal_DockerProperties :: "DockerProperties \<Rightarrow> jmap" where
  "marshal_DockerProperties p =
     [(''image'', JString (Image p))]
     @ omitempty_ptr ''environment'' (Environment p)
     @ [(''console_type'', JString (ConsoleType p))]
     @ omitempty_list ''extra_volumes'' (ExtraVolumes p)
     @ omitempty_ptr ''start_command'' (StartCommand p)"

definition marshal_DockerNode :: "DockerNode \<Rightarrow> jmap" where
  "marshal_DockerNode n =
     [(''name'', JString (Name n)), (''node_type'', JString (NodeType n))]
     @ omitempty_string ''compute_id'' (ComputeID n)
     @ [(''properties'', JObject (marshal_DockerProperties (Properties n)))]
     @ omitempty_string ''node_id'' (NodeID n)
     @ omitempty_int ''x'' (X n)
     @ omitempty_int ''y'' (Y n)"

definition ptr_field :: "jmap \<Rightarrow> string \<Rightarrow> string option option" where
  "ptr_field kv k =
     (case map_of kv k of
        None \<Rightarrow> Some None
      | Some JNull \<Rightarrow> Some None
      | Some (JString s) \<Rightarrow> Some (Some s)
      | Some _ \<Rightarrow> None)"

definition list_elem :: "json \<Rightarrow> string option" where
  "list_elem j = (case j of JNull \<Rightarrow> Some [] | JString s \<Rightarrow> Some s | _ \<Rightarrow> None)"

definition list_field :: "jmap \<Rightarrow> string \<Rightarrow> string list option" where
  "list_field kv k =
     (case map_of kv k of
        None \<Rightarrow> Some []
      | Some JNull \<Rightarrow> Some []
      | Some (JArray xs) \<Rightarrow> those (map list_elem xs)
      | Some _ \<Rightarrow> None)"

definition zero_DockerProperties :: DockerProperties where
  "zero_DockerProperties =
     \<lparr>Image = [], Environment = None, ConsoleType = [], ExtraVolumes = [], StartCommand = None\<rparr>"

definition decode_DockerProperties :: "jmap \<Rightarrow> DockerProperties option" where
  "decode_DockerProperties kv =
     Option.bind (string_field kv ''image'') (\<lambda>i.
     Option.bind (ptr_field kv ''environment'') (\<lambda>e.
     Option.bind (string_field kv ''console_type'') (\<lambda>c.
     Option.bind (list_field kv ''extra_volumes'') (\<lambda>v.
     Option.bind (ptr_field kv ''start_command'') (\<lambda>sc.
       Some \<lparr>Image = i, Environment = e, ConsoleType = c, ExtraVolumes = v,
             StartCommand = sc\<rparr>)))))"

definition properties_field :: "jmap \<Rightarrow> DockerProperties option" where
  "properties_field kv =
     (case map_of kv ''properties'' of
        None \<Rightarrow> Some zero_DockerProperties
      | Some JNull \<Rightarrow> Some zero_DockerProperties
      | Some (JObject pkv) \<Rightarrow> decode_DockerProperties pkv
      | Some _ \<Rightarrow> None)"

definition decode_DockerNode :: "body \<Rightarrow> DockerNode option" where
  "decode_DockerNode b =
     (case b of
        Doc JNull \<Rightarrow>
          Some \<lparr>Name = [], NodeType = [], ComputeID = [], Properties = zero_DockerProperties,
                NodeID = [], X = 0, Y = 0\<rparr>
      | Doc (JObject kv) \<Rightarrow>
          Option.bind (string_field kv ''name'') (\<lambda>n.
          Option.bind (string_field kv ''node_type'') (\<lambda>t.
          Option.bind (string_field kv ''compute_id'') (\<lambda>c.
          Option.bind (properties_field kv) (\<lambda>p.
          Option.bind (string_field kv ''node_id'') (\<lambda>i.
          Option.bind (int_field kv ''x'') (\<lambda>x.
          Option.bind (int_field kv ''y'') (\<lambda>y.
            Some \<lparr>Name = n, NodeType = t, ComputeID = c, Properties = p, NodeID = i,
                  X = x, Y = y\<rparr>)))))))
      | _ \<Rightarrow> None)"

text \<open>\<^verbatim>\<open>strings.Join\<close>.\<close>

fun strings_Join :: "string list \<Rightarrow> string \<Rightarrow> string" where
  "strings_Join [] sep = []"
| "strings_Join [x] sep = x"
| "strings_Join (x # y # ys) sep = x @ sep @ strings_Join (y # ys) sep"

text \<open>The environment map as one string of comma-separated \<open>key=value\<close>
  pairs. Go ranges over a map in no fixed order; the model takes the order of
  the attribute's association list.\<close>

definition format_environment :: "(string \<times> string) list \<Rightarrow> string" where
  "format_environment envVars =
     strings_Join (map (\<lambda>(key, v). key @ ''='' @ v) envVars) '',''"

definition docker_create_payload :: "ResourceData \<Rightarrow> jmap" where
  "docker_create_payload d =
     (let name = Get_string d ''name'';
          computeID = Get_string d ''compute_id'';
          image = Get_string d ''image'';
          x = Get_int d ''x'';
          y = Get_int d ''y'';
          envStr = (case GetOk_map d ''environment'' of
                      (v, ok) \<Rightarrow> if ok then Some (format_environment v) else None);
          extraVolumes = (case GetOk_list d ''extra_volumes'' of
                            (v, ok) \<Rightarrow> if ok then v else []);
          startCommand = (case GetOk_string d ''start_command'' of
                            (v, ok) \<Rightarrow> if ok then Some v else None);
          dockerNode = \<lparr>Name = name, NodeType = ''docker'', ComputeID = computeID,
                        Properties = \<lparr>Image = image, Environment = envStr, ConsoleType = ''none'',
                                       ExtraVolumes = extraVolumes, StartCommand = startCommand\<rparr>,
                        NodeID = [], X = x, Y = y\<rparr>
      in marshal_DockerNode dockerNode)"

text \<open>The start step of the Docker Create (source lines 207 to 224).\<close>

definition docker_start :: "world \<Rightarrow> string \<Rightarrow> string \<Rightarrow> string \<Rightarrow> state \<Rightarrow> error option \<times> state" where
  "docker_start w host projectID nodeID s2 =
     (if Get_bool (res s2) ''start''
      then (case http_NewRequest w ''POST'' (start_url host projectID nodeID) None of
              None \<Rightarrow> (Some (RequestError OpStart), s2)
            | Some startReq \<Rightarrow>
                (case client_Do w startReq s2 of
                   (Failed, s3) \<Rightarrow> (Some (TransportError OpStart), s3)
                 | (Response startStatus sb, s3) \<Rightarrow>
                     if startStatus \<noteq> 200
                     then (Some (StatusError OpStart startStatus (RawBody sb)), s3)
                     else (None, s3)))
      else (None, s2))"

definition resourceGns3DockerCreate :: callback where
  "resourceGns3DockerCreate w config s =
     (let d = res s;
          host = Host config;
          projectID = Get_string d ''project_id''
      in case json_Marshal (docker_create_payload d) of
           None \<Rightarrow> (Some MarshalError, s)
         | Some data \<Rightarrow>
             (case http_NewRequest w ''POST'' (nodes_url host projectID) (Some data) of
                None \<Rightarrow> (Some (RequestError OpCreate), s)
              | Some req \<Rightarrow>
                  (case client_Do w req s of
                     (Failed, s1) \<Rightarrow> (Some (TransportError OpCreate), s1)
                   | (Response status b, s1) \<Rightarrow>
                       if status \<noteq> 201 then (Some (StatusError OpCreate status (RawBody b)), s1)
                       else (case decode_DockerNode b of
                               None \<Rightarrow> (Some (DecodeError OpCreate), s1)
                             | Some createdDocker \<Rightarrow>
                                 if NodeID createdDocker = [] then (Some MissingNodeId, s1)
                                 else docker_start w host projectID (NodeID createdDocker)
                                        (set_attr ''docker_id'' (AString (NodeID createdDocker))
                                           (set_id (NodeID createdDocker) s1))))))"

definition resourceGns3DockerRead :: callback where
  "resourceGns3DockerRead w config s =
     (let d = res s;
          host = Host config;
          projectID = Get_string d ''project_id'';
          nodeID = rid d
      in case http_Get w (node_url host projectID nodeID) s of
           (Failed, s1) \<Rightarrow> (Some (TransportError OpRead), s1)
         | (Response status b, s1) \<Rightarrow>
             if status = 404 then (None, set_id [] s1)
             else if status \<noteq> 200 then (Some (StatusError OpRead status NoBody), s1)
             else (None, s1))"

text \<open>The update map when the request body is marshalled (source lines 262 to 271).\<close>

definition docker_updateData :: "ResourceData \<Rightarrow> jmap" where
  "docker_updateData d =
     (let u0 = [];
          u1 = assign_if (HasChange d ''environment'') ''environment''
                 (JString (format_environment (Get_map d ''environment''))) u0
      in u1)"

text \<open>The assignment after the response has been checked (source lines 298 to 300).\<close>

definition docker_stage_start_command :: "ResourceData \<Rightarrow> jmap \<Rightarrow> jmap" where
  "docker_stage_start_command d updateData =
     assign_if (HasChange d ''start_command'') ''start_command''
       (JString (Get_string d ''start_command'')) updateData"

definition resourceGns3DockerUpdate :: callback where
  "resourceGns3DockerUpdate w config s =
     (let d = res s;
          host = Host config;
          projectID = Get_string d ''project_id'';
          nodeID = rid d;
          updateData = docker_updateData d
      in case json_Marshal updateData of
           None \<Rightarrow> (Some MarshalError, s)
         | Some data \<Rightarrow>
             (case http_NewRequest w ''PUT'' (node_url host projectID nodeID) (Some data) of
                None \<Rightarrow> (Some (RequestError OpUpdate), s)
              | Some req \<Rightarrow>
                  (case client_Do w req s of
                     (Failed, s1) \<Rightarrow> (Some (TransportError OpUpdate), s1)
                   | (Response status b, s1) \<Rightarrow>
                       if status \<noteq> 200 then (Some (StatusError OpUpdate status (RawBody b)), s1)
                       else (let updateData' = docker_stage_start_command d updateData
                             in resourceGns3DockerRead w config s1))))"

definition resourceGns3DockerDelete :: callback where
  "resourceGns3DockerDelete w config s =
     (let d = res s;
          host = Host config;
          projectID = Get_string d ''project_id'';
          nodeID = rid d
      in case http_NewRequest w ''DELETE'' (node_url host projectID nodeID) None of
           None \<Rightarrow> (Some (RequestError OpDelete), s)
         | Some req \<Rightarrow>
             (case client_Do w req s of
                (Failed, s1) \<Rightarrow> (Some (TransportError OpDelete), s1)
              | (Response status b, s1) \<Rightarrow> (None, set_id [] s1)))"

section \<open>QEMU virtual machines\<close>

text \<open>The properties map of the creation request (source lines 131 to 171).
  \<^verbatim>\<open>GetOk\<close> hands back the zero value, never \<^verbatim>\<open>nil\<close>, so the test
  \<^verbatim>\<open>cdromImage != nil\<close> always holds and the assignment always runs.\<close>

definition qemu_create_properties :: "ResourceData \<Rightarrow> jmap" where
  "qemu_create_properties d =
     (let adapterType = Get_string d ''adapter_type'';
          adapters = Get_int d ''adapters'';
          biosImage = Get_string d ''bios_image'';
          cdromImage = fst (GetOk_string d ''cdrom_image'');
          consoleType = Get_string d ''console_type'';
          cpus = Get_int d ''cpus'';
          ram = Get_int d ''ram'';
          platform = Get_string d ''platform'';
          p0 = [(''adapter_type'', JString adapterType), (''adapters'', JNumber adapters),
                (''bios_image'', JString biosImage), (''cdrom_image'', JString []),
                (''console_type'', JString consoleType), (''ram'', JNumber ram),
                (''cpus'', JNumber cpus), (''platform'', JString platform)];
          p1 = AList.update ''cdrom_image'' (JString cdromImage) p0;
          p2 = (case GetOk_int d ''console'' of
                  (consoleVal, consoleOk) \<Rightarrow>
                    if consoleOk then AList.update ''console'' (JNumber consoleVal) p1 else p1);
          p3 = (case GetOk_string d ''mac_address'' of
                  (v, ok) \<Rightarrow> if ok then AList.update ''mac_address'' (JString v) p2 else p2);
          p4 = (case GetOk_string d ''options'' of
                  (v, ok) \<Rightarrow> if ok then AList.update ''options'' (JString v) p3 else p3);
          p5 = (case GetOk_string d ''hda_disk_image'' of
                  (v, ok) \<Rightarrow>
                    if ok then AList.update ''hda_disk_interface'' (JString ''virtio'')
                                 (AList.update ''hda_disk_image'' (JString v) p4)
                    else p4)
      in p5)"

definition qemu_read_properties :: "jmap \<Rightarrow> state \<Rightarrow> state" where
  "qemu_read_properties node s =
     (case assert_object node ''properties'' of
        (props, ok) \<Rightarrow>
          if ok then
            (let s1 = (case assert_string props ''adapter_type'' of
                         (v, okv) \<Rightarrow> if okv \<and> v \<noteq> [] then set_attr ''adapter_type'' (AString v) s else s);
                 s2 = (case assert_number props ''adapters'' of
                         (v, okv) \<Rightarrow> if okv then set_attr ''adapters'' (AInt v) s1 else s1);
                 s3 = (case assert_string props ''bios_image'' of
                         (v, okv) \<Rightarrow> if okv then set_attr ''bios_image'' (AString v) s2 else s2);
                 s4 = (case assert_string props ''cdrom_image'' of
                         (v, okv) \<Rightarrow> if okv then set_attr ''cdrom_image'' (AString v) s3 else s3);
                 s5 = (case assert_number props ''cpus'' of
                         (v, okv) \<Rightarrow> if okv \<and> v \<noteq> 0 then set_attr ''cpus'' (AInt v) s4 else s4)
             in s5)
          else s)"

definition resourceGns3QemuRead :: callback where
  "resourceGns3QemuRead w config s =
     (let d = res s;
          host = Host config;
          projectID = Get_string d ''project_id'';
          nodeID = rid d
      in case http_Get w (node_url host projectID nodeID) s of
           (Failed, s1) \<Rightarrow> (Some (TransportError OpRead), s1)
         | (Response status b, s1) \<Rightarrow>
             if status = 404 then (None, set_id [] s1)
             else if status \<noteq> 200 then (Some (StatusError OpRead status (RawBody b)), s1)
             else (case decode_map b of
                     None \<Rightarrow> (Some (DecodeError OpRead), s1)
                   | Some node \<Rightarrow>
                       (None, qemu_read_properties node
                                (read_xy node (Set_string_from ''name'' (map_of node ''name'') s1)))))"

definition qemu_create_payload :: "ResourceData \<Rightarrow> jmap" where
  "qemu_create_payload d =
     (let name = Get_string d ''name'';
          x = Get_int d ''x'';
          y = Get_int d ''y'';
          symbol = Get_string d ''symbol'';
          properties = qemu_create_properties d;
          payload = [(''name'', JString name), (''node_type'', JString ''qemu''),
                     (''compute_id'', JString ''local''), (''x'', JNumber x), (''y'', JNumber y),
                     (''symbol'', JString symbol), (''properties'', JObject properties)]
      in payload)"

text \<open>The start step of the QEMU Create (source lines 212 to 228).\<close>

definition qemu_start :: "world \<Rightarrow> string \<Rightarrow> string \<Rightarrow> string \<Rightarrow> state \<Rightarrow> error option \<times> state" where
  "qemu_start w host projectID nodeID s2 =
     (if Get_bool (res s2) ''start_vm''
      then (case http_NewRequest w ''POST'' (start_url host projectID nodeID) None of
              None \<Rightarrow> (Some (RequestError OpStart), s2)
            | Some req \<Rightarrow>
                (case client_Do w req s2 of
                   (Failed, s3) \<Rightarrow> (Some (TransportError OpStart), s3)
                 | (Response startStatus sb, s3) \<Rightarrow>
                     if startStatus \<noteq> 200
                     then (Some (StatusError OpStart startStatus (RawBody sb)), s3)
                     else (None, s3)))
      else (None, s2))"

definition resourceGns3QemuCreate :: callback where
  "resourceGns3QemuCreate w config s =
     (let d = res s;
          projectID = Get_string d ''project_id''
      in case json_Marshal (qemu_create_payload d) of
           None \<Rightarrow> (Some MarshalError, s)
         | Some jsonPayload \<Rightarrow>
             (case http_Post w (nodes_url (Host config) projectID) (Some jsonPayload) s of
                (Failed, s1) \<Rightarrow> (Some (TransportError OpCreate), s1)
              | (Response status b, s1) \<Rightarrow>
                  if status \<noteq> 201 \<and> status \<noteq> 200
                  then (Some (StatusError OpCreate status (RawBody b)), s1)
                  else (case decode_map b of
                          None \<Rightarrow> (Some (DecodeError OpCreate), s1)
                        | Some result \<Rightarrow>
                            (case assert_string result ''node_id'' of
                               (nodeID, ok) \<Rightarrow>
                                 if \<not> ok \<or> nodeID = [] then (Some MissingNodeId, s1)
                                 else
                                   (case qemu_start w (Host config) projectID nodeID
                                           (set_id nodeID s1) of
                                      (Some startErr, s3) \<Rightarrow> (Some startErr, s3)
                                    | (None, s3) \<Rightarrow> resourceGns3QemuRead w config s3)))))"

definition qemu_update_properties :: "ResourceData \<Rightarrow> jmap" where
  "qemu_update_properties d =
     (let p0 = [];
          p1 = assign_if (HasChange d ''adapter_type'') ''adapter_type'' (JString (Get_string d ''adapter_type'')) p0;
          p2 = assign_if (HasChange d ''adapters'') ''adapters'' (JNumber (Get_int d ''adapters'')) p1;
          p3 = assign_if (HasChange d ''bios_image'') ''bios_image'' (JString (Get_string d ''bios_image'')) p2;
          p4 = assign_if (HasChange d ''cdrom_image'') ''cdrom_image'' (JString (Get_string d ''cdrom_image'')) p3;
          p5 = assign_if (HasChange d ''cpus'') ''cpus'' (JNumber (Get_int d ''cpus'')) p4;
          p6 = assign_if (HasChange d ''ram'') ''ram'' (JNumber (Get_int d ''ram'')) p5;
          p7 = assign_if (HasChange d ''console_type'') ''console_type'' (JString (Get_string d ''console_type'')) p6;
          p8 = assign_if (HasChange d ''platform'') ''platform'' (JString (Get_string d ''platform'')) p7;
          p9 = assign_if (HasChange d ''hda_disk_image'') ''hda_disk_image'' (JString (Get_string d ''hda_disk_image'')) p8;
          p10 = assign_if (HasChange d ''mac_address'') ''mac_address'' (JString (Get_string d ''mac_address'')) p9;
          p11 = assign_if (HasChange d ''options'') ''options'' (JString (Get_string d ''options'')) p10
      in p11)"

definition qemu_updateData :: "ResourceData \<Rightarrow> jmap" where
  "qemu_updateData d =
     (let u0 = [];
          u1 = assign_if (HasChange d ''name'') ''name'' (JString (Get_string d ''name'')) u0;
          u2 = assign_if (HasChange d ''x'') ''x'' (JNumber (Get_int d ''x'')) u1;
          u3 = assign_if (HasChange d ''y'') ''y'' (JNumber (Get_int d ''y'')) u2;
          u4 = assign_if (HasChange d ''symbol'') ''symbol'' (JString (Get_string d ''symbol'')) u3;
          properties = qemu_update_properties d;
          u5 = assign_if (properties \<noteq> []) ''properties'' (JObject properties) u4
      in u5)"

definition resourceGns3QemuUpdate :: callback where
  "resourceGns3QemuUpdate w config s =
     (let d = res s;
          host = Host config;
          projectID = Get_string d ''project_id'';
          nodeID = rid d;
          updateData = qemu_updateData d
      in if updateData = [] then (None, s)
         else (case json_Marshal updateData of
                 None \<Rightarrow> (Some MarshalError, s)
               | Some data \<Rightarrow>
                   (case http_NewRequest w ''PUT'' (node_url host projectID nodeID) (Some data) of
                      None \<Rightarrow> (Some (RequestError OpUpdate), s)
                    | Some req \<Rightarrow>
                        (case client_Do w req s of
                           (Failed, s1) \<Rightarrow> (Some (TransportError OpUpdate), s1)
                         | (Response status b, s1) \<Rightarrow>
                             if status \<noteq> 200
                             then (Some (StatusError OpUpdate status (RawBody b)), s1)
                             else resourceGns3QemuRead w config s1))))"

definition resourceGns3QemuDelete :: callback where
  "resourceGns3QemuDelete w config s =
     (let d = res s;
          projectID = Get_string d ''project_id'';
          nodeID = rid d
      in case http_NewRequest w ''DELETE'' (node_url (Host config) projectID nodeID) None of
           None \<Rightarrow> (Some (RequestError OpDelete), s)
         | Some req \<Rightarrow>
             (case client_Do w req s of
                (Failed, s1) \<Rightarrow> (Some (TransportError OpDelete), s1)
              | (Response status b, s1) \<Rightarrow>
                  if status \<noteq> 204 \<and> status \<noteq> 200
                  then (Some (StatusError OpDelete status (RawBody b)), s1)
                  else (None, set_id [] s1)))"

section \<open>Importers\<close>

text \<open>\<^verbatim>\<open>strings.Contains(s, sep)\<close> and \<^verbatim>\<open>strings.SplitN(s, sep, 2)\<close> for a
  one-character separator: the text before the first separator and the text
  after it, or the whole string when there is none.\<close>

definition strings_Contains :: "string \<Rightarrow> char \<Rightarrow> bool" where
  "strings_Contains s sep = (sep \<in> set s)"

definition strings_SplitN2 :: "string \<Rightarrow> char \<Rightarrow> string list" where
  "strings_SplitN2 s sep =
     (if sep \<in> set s
      then [takeWhile (\<lambda>c. c \<noteq> sep) s, tl (dropWhile (\<lambda>c. c \<noteq> sep) s)]
      else [s])"

type_synonym importer = "ResourceData \<Rightarrow> error + ResourceData"

text \<open>\<^verbatim>\<open>d.Set("project_id", projectID)\<close> stores a string in a string attribute,
  which the SDK never refuses.\<close>

definition import_finish :: "string \<Rightarrow> string \<Rightarrow> ResourceData \<Rightarrow> error + ResourceData" where
  "import_finish projectID nodeID d =
     Inr (SetId nodeID (Set_attr ''project_id'' (AString projectID) d))"

definition resourceGns3CloudImporter :: importer where
  "resourceGns3CloudImporter d =
     (let raw = rid d
      in case strings_SplitN2 raw CHR ''/'' of
           [p0, p1] \<Rightarrow> import_finish p0 p1 d
         | _ \<Rightarrow> Inl (InvalidImportId raw))"

definition resourceGns3SwitchImporter :: importer where
  "resourceGns3SwitchImporter d =
     (let raw = rid d
      in case strings_SplitN2 raw CHR ''/'' of
           [p0, p1] \<Rightarrow> import_finish p0 p1 d
         | _ \<Rightarrow> Inl (InvalidImportId raw))"

definition resourceGns3DockerImporter :: importer where
  "resourceGns3DockerImporter d =
     (let raw = rid d
      in case strings_SplitN2 raw CHR ''/'' of
           [p0, p1] \<Rightarrow> import_finish p0 p1 d
         | _ \<Rightarrow> Inl (InvalidImportId raw))"

text \<open>The template and QEMU importers index \<^verbatim>\<open>parts[0]\<close> and \<^verbatim>\<open>parts[1]\<close>
  after a \<^verbatim>\<open>strings.Contains\<close> test; an index out of range would panic.\<close>

definition index2 :: "string list \<Rightarrow> (string \<times> string) option" where
  "index2 parts = (case parts of p0 # p1 # _ \<Rightarrow> Some (p0, p1) | _ \<Rightarrow> None)"

definition resourceGns3TemplateImporter :: importer where
  "resourceGns3TemplateImporter d =
     (let raw = rid d
      in if strings_Contains raw CHR ''/''
         then (case index2 (strings_SplitN2 raw CHR ''/'') of
                 None \<Rightarrow> Inl IndexOutOfRange
               | Some (projectID, nodeID) \<Rightarrow> import_finish projectID nodeID d)
         else Inl (InvalidImportId raw))"

definition resourceQemuImporter :: importer where
  "resourceQemuImporter d =
     (let raw = rid d
      in if strings_Contains raw CHR '',''
         then (case index2 (strings_SplitN2 raw CHR '','') of
                 None \<Rightarrow> Inl IndexOutOfRange
               | Some (nodeID, projectID) \<Rightarrow> import_finish projectID nodeID d)
         else if strings_Contains raw CHR ''/''
         then (case index2 (strings_SplitN2 raw CHR ''/'') of
                 None \<Rightarrow> Inl IndexOutOfRange
               | Some (projectID, nodeID) \<Rightarrow> import_finish projectID nodeID d)
         else Inl (InvalidImportId raw))"

section \<open>The five resource kinds\<close>

text \<open>\<^verbatim>\<open>schema.Resource\<close>: the callbacks each resource constructor registers.\<close>

record Resource =
  Create :: callback
  Read :: callback
  Update :: callback
  Delete :: callback
  Importer :: importer

definition resourceGns3Cloud :: Resource where
  "resourceGns3Cloud =
     \<lparr>Create = resourceGns3CloudCreate, Read = resourceGns3CloudRead,
      Update = resourceGns3CloudUpdate, Delete = resourceGns3CloudDelete,
      Importer = resourceGns3CloudImporter\<rparr>"

definition resourceGns3Switch :: Resource where
  "resourceGns3Switch =
     \<lparr>Create = resourceGns3SwitchCreate, Read = resourceGns3SwitchRead,
      Update = resourceGns3SwitchUpdate, Delete = resourceGns3SwitchDelete,
      Importer = resourceGns3SwitchImporter\<rparr>"

definition resourceGns3Template :: Resource where
  "resourceGns3Template =
     \<lparr>Create = resourceGns3TemplateCreate, Read = resourceGns3TemplateRead,
      Update = resourceGns3TemplateUpdate, Delete = resourceGns3TemplateDelete,
      Importer = resourceGns3TemplateImporter\<rparr>"

definition resourceGns3Docker :: Resource where
  "resourceGns3Docker =
     \<lparr>Create = resourceGns3DockerCreate, Read = resourceGns3DockerRead,
      Update = resourceGns3DockerUpdate, Delete = resourceGns3DockerDelete,
      Importer = resourceGns3DockerImporter\<rparr>"

definition resourceGns3Qemu :: Resource where
  "resourceGns3Qemu =
     \<lparr>Create = resourceGns3QemuCreate, Read = resourceGns3QemuRead,
      Update = resourceGns3QemuUpdate, Delete = resourceGns3QemuDelete,
      Importer = resourceQemuImporter\<rparr>"

datatype kind = CloudKind | SwitchKind | TemplateKind | DockerKind | QemuKind

fun resource :: "kind \<Rightarrow> Resource" where
  "resource CloudKind = resourceGns3Cloud"
| "resource SwitchKind = resourceGns3Switch"
| "resource TemplateKind = resourceGns3Template"
| "resource DockerKind = resourceGns3Docker"
| "resource QemuKind = resourceGns3Qemu"

text \<open>The request each callback builds for the node it is called on.\<close>

definition node_request :: "string \<Rightarrow> ProviderConfig \<Rightarrow> ResourceData \<Rightarrow> jmap option \<Rightarrow> request" where
  "node_request m config d b =
     \<lparr>Method = m, URL = node_url (Host config) (Get_string d ''project_id'') (rid d), payload = b\<rparr>"

section \<open>Vocabulary of the statements\<close>

text \<open>The creation request of each kind: a POST to the project's node
  collection, or to the template's instantiation endpoint.\<close>

fun create_request :: "kind \<Rightarrow> ProviderConfig \<Rightarrow> ResourceData \<Rightarrow> request" where
  "create_request CloudKind config d =
     \<lparr>Method = ''POST'', URL = nodes_url (Host config) (Get_string d ''project_id''),
      payload = Some (cloud_create_payload d)\<rparr>"
| "create_request SwitchKind config d =
     \<lparr>Method = ''POST'', URL = nodes_url (Host config) (Get_string d ''project_id''),
      payload = Some (switch_create_payload d)\<rparr>"
| "create_request TemplateKind config d =
     \<lparr>Method = ''POST'',
      URL = template_url (Host config) (Get_string d ''project_id'') (Get_string d ''template_id''),
      payload = Some (template_create_payload d)\<rparr>"
| "create_request DockerKind config d =
     \<lparr>Method = ''POST'', URL = nodes_url (Host config) (Get_string d ''project_id''),
      payload = Some (docker_create_payload d)\<rparr>"
| "create_request QemuKind config d =
     \<lparr>Method = ''POST'', URL = nodes_url (Host config) (Get_string d ''project_id''),
      payload = Some (qemu_create_payload d)\<rparr>"

text \<open>The update map each kind's Update marshals into its PUT.\<close>

fun updateData :: "kind \<Rightarrow> ResourceData \<Rightarrow> jmap" where
  "updateData CloudKind d = cloud_updateData d"
| "updateData SwitchKind d = switch_updateData d"
| "updateData TemplateKind d = template_updateData d"
| "updateData DockerKind d = docker_updateData d"
| "updateData QemuKind d = qemu_updateData d"

definition update_request :: "kind \<Rightarrow> ProviderConfig \<Rightarrow> ResourceData \<Rightarrow> request" where
  "update_request k config d = node_request ''PUT'' config d (Some (updateData k d))"

text \<open>Errors of the steps that follow the assignment of the identity in
  Create: the start request, and the Read that closes the QEMU Create.\<close>

fun post_create_error :: "error \<Rightarrow> bool" where
  "post_create_error (RequestError op) = (op = OpStart)"
| "post_create_error (TransportError op) = (op = OpStart \<or> op = OpRead)"
| "post_create_error (StatusError op st dt) = (op = OpStart \<or> op = OpRead)"
| "post_create_error (DecodeError op) = (op = OpRead)"
| "post_create_error e = False"

text \<open>The attributes each delta-computing Update looks at, and the JSON value
  it sends for one (a number for the integer attributes, a string otherwise).\<close>

definition cloud_fields :: "string list" where
  "cloud_fields = [''name'', ''compute_id'', ''x'', ''y'', ''symbol'']"

definition switch_fields :: "string list" where
  "switch_fields = [''name'', ''compute_id'', ''x'', ''y'']"

definition qemu_flat_fields :: "string list" where
  "qemu_flat_fields = [''name'', ''x'', ''y'', ''symbol'']"

definition qemu_nested_fields :: "string list" where
  "qemu_nested_fields =
     [''adapter_type'', ''adapters'', ''bios_image'', ''cdrom_image'', ''cpus'', ''ram'',
      ''console_type'', ''platform'', ''hda_disk_image'', ''mac_address'', ''options'']"

definition int_fields :: "string list" where
  "int_fields = [''x'', ''y'', ''adapters'', ''cpus'', ''ram'']"

definition wire_value :: "ResourceData \<Rightarrow> string \<Rightarrow> json" where
  "wire_value d k = (if k \<in> set int_fields then JNumber (Get_int d k) else JString (Get_string d k))"

text \<open>Concrete collaborators for the examples: a controller that answers the
  i-th request with the i-th entry of a script, a provider configuration, and
  a resource with given identity, attributes and changed keys.\<close>

definition scripted :: "http_result list \<Rightarrow> world" where
  "scripted rs =
     \<lparr>buildable = (\<lambda>r. True),
      respond = (\<lambda>tr. if tr \<noteq> [] \<and> length tr \<le> length rs then rs ! (length tr - 1) else Failed)\<rparr>"

definition gns3 :: ProviderConfig where
  "gns3 = \<lparr>Host = ''http://gns3:3080''\<rparr>"

definition resource_data :: "string \<Rightarrow> (string \<times> attr) list \<Rightarrow> string list \<Rightarrow> ResourceData" where
  "resource_data i as cs = \<lparr>rid = i, attrs = map_of as, HasChange = (\<lambda>k. k \<in> set cs)\<rparr>"

definition fresh :: "ResourceData \<Rightarrow> state" where
  "fresh d = \<lparr>res = d, sent = []\<rparr>"

section \<open>Unfolding rules\<close>

lemmas resource_defs = resourceGns3Cloud_def resourceGns3Switch_def resourceGns3Template_def
  resourceGns3Docker_def resourceGns3Qemu_def

lemmas http_defs = http_NewRequest_def client_Do_def http_Get_def http_Post_def node_request_def

lemmas fixture_defs = scripted_def gns3_def resource_data_def fresh_def

lemmas delete_defs = resourceGns3CloudDelete_def resourceGns3SwitchDelete_def
  resourceGns3TemplateDelete_def resourceGns3DockerDelete_def resourceGns3QemuDelete_def

section \<open>Delete\<close>

text \<open>
  C1 (as amended). Whatever the kind, a Delete that succeeds has cleared the
  identity and a Delete that fails has left the resource data as it was. When
  the controller answers the DELETE request with status \<open>st\<close>: exactly that
  one request is sent; 204 makes every kind succeed and clear the identity;
  the template kind succeeds exactly on 204 and 404, and 404 has the same
  effect as 204; the QEMU kind also takes 200 as success; and for every kind
  but the Docker one a status other than 204 and 404, and for the QEMU kind
  other than 200 as well, is an error that carries the status code and leaves
  the resource data untouched, so the cloud, switch and template kinds
  reject 200. Nothing is said here about 404 for the cloud, switch and QEMU
  kinds, nor about the Docker kind on statuses other than 204.
\<close>

theorem delete_status_policy:
  fixes k w config s st b
  defines "req \<equiv> node_request ''DELETE'' config (res s) None"
  defines "R \<equiv> Delete (resource k) w config s"
  defines "gone \<equiv> (None, set_id [] (s\<lparr>sent := sent s @ [req]\<rparr>))"
  shows "(fst R = None \<longrightarrow> rid (res (snd R)) = []) \<and>
         (fst R \<noteq> None \<longrightarrow> res (snd R) = res s) \<and>
         (buildable w req \<and> respond w (sent s @ [req]) = Response st b \<longrightarrow>
            sent (snd R) = sent s @ [req] \<and>
            (st = 204 \<longrightarrow> R = gone) \<and>
            (k = TemplateKind \<longrightarrow>
               (fst R = None \<longleftrightarrow> st = 204 \<or> st = 404) \<and> (st = 404 \<longrightarrow> R = gone)) \<and>
            (k = QemuKind \<and> st = 200 \<longrightarrow> R = gone) \<and>
            (k \<noteq> DockerKind \<and> st \<noteq> 204 \<and> st \<noteq> 404 \<and> (k = QemuKind \<longrightarrow> st \<noteq> 200) \<longrightarrow>
               (\<exists>dt. R = (Some (StatusError OpDelete st dt), s\<lparr>sent := sent s @ [req]\<rparr>))))"
  unfolding req_def R_def gone_def
  by (cases k)
    (auto simp: delete_defs resource_defs http_defs set_id_def SetId_def Let_def
          split: http_result.splits)

theorem delete_status_policy_witness:
  "Delete (resource TemplateKind) (scripted [Response 404 (Raw [])]) gns3
     (fresh (resource_data ''n1'' [(''project_id'', AString ''p1'')] []))
   = (None, \<lparr>res = resource_data [] [(''project_id'', AString ''p1'')] [],
             sent = [\<lparr>Method = ''DELETE'', URL = ''http://gns3:3080/v2/projects/p1/nodes/n1'',
                      payload = None\<rparr>]\<rparr>)
   \<and> Delete (resource QemuKind) (scripted [Response 200 (Raw [])]) gns3
     (fresh (resource_data ''n1'' [(''project_id'', AString ''p1'')] []))
   = (None, \<lparr>res = resource_data [] [(''project_id'', AString ''p1'')] [],
             sent = [\<lparr>Method = ''DELETE'', URL = ''http://gns3:3080/v2/projects/p1/nodes/n1'',
                      payload = None\<rparr>]\<rparr>)
   \<and> (\<exists>dt. Delete (resource CloudKind) (scripted [Response 500 (Raw ''boom'')]) gns3
     (fresh (resource_data ''n1'' [(''project_id'', AString ''p1'')] []))
     = (Some (StatusError OpDelete 500 dt),
        \<lparr>res = resource_data ''n1'' [(''project_id'', AString ''p1'')] [],
         sent = [\<lparr>Method = ''DELETE'', URL = ''http://gns3:3080/v2/projects/p1/nodes/n1'',
                  payload = None\<rparr>]\<rparr>))
   \<and> (\<exists>dt. Delete (resource CloudKind) (scripted [Response 200 (Raw [])]) gns3
     (fresh (resource_data ''n1'' [(''project_id'', AString ''p1'')] []))
     = (Some (StatusError OpDelete 200 dt),
        \<lparr>res = resource_data ''n1'' [(''project_id'', AString ''p1'')] [],
         sent = [\<lparr>Method = ''DELETE'', URL = ''http://gns3:3080/v2/projects/p1/nodes/n1'',
                  payload = None\<rparr>]\<rparr>))
   \<and> (\<exists>dt. Delete (resource SwitchKind) (scripted [Response 200 (Raw [])]) gns3
     (fresh (resource_data ''n1'' [(''project_id'', AString ''p1'')] []))
     = (Some (StatusError OpDelete 200 dt),
        \<lparr>res = resource_data ''n1'' [(''project_id'', AString ''p1'')] [],
         sent = [\<lparr>Method = ''DELETE'', URL = ''http://gns3:3080/v2/projects/p1/nodes/n1'',
                  payload = None\<rparr>]\<rparr>))"
proof -
  let ?s = "fresh (resource_data ''n1'' [(''project_id'', AString ''p1'')] [])"
  let ?req = "node_request ''DELETE'' gns3 (res ?s) None"
  have req: "?req = \<lparr>Method = ''DELETE'', URL = ''http://gns3:3080/v2/projects/p1/nodes/n1'',
                       payload = None\<rparr>"
    by (simp add: node_request_def node_url_def gns3_def fresh_def resource_data_def Get_string_def)
  have answers: "buildable (scripted [r]) ?req \<and> respond (scripted [r]) (sent ?s @ [?req]) = r"
    for r
    by (simp add: scripted_def fresh_def)
  have cleared: "set_id [] (?s\<lparr>sent := sent ?s @ [?req]\<rparr>)
      = \<lparr>res = resource_data [] [(''project_id'', AString ''p1'')] [], sent = [?req]\<rparr>"
    by (simp add: set_id_def SetId_def fresh_def resource_data_def)
  have kept: "?s\<lparr>sent := sent ?s @ [?req]\<rparr>
      = \<lparr>res = resource_data ''n1'' [(''project_id'', AString ''p1'')] [], sent = [?req]\<rparr>"
    by (simp add: fresh_def)
  from delete_status_policy [of TemplateKind "scripted [Response 404 (Raw [])]" gns3 ?s 404 "Raw []"]
    answers [of "Response 404 (Raw [])"]
  have a: "Delete (resource TemplateKind) (scripted [Response 404 (Raw [])]) gns3 ?s
           = (None, set_id [] (?s\<lparr>sent := sent ?s @ [?req]\<rparr>))"
    by blast
  from delete_status_policy [of QemuKind "scripted [Response 200 (Raw [])]" gns3 ?s 200 "Raw []"]
    answers [of "Response 200 (Raw [])"]
  have b: "Delete (resource QemuKind) (scripted [Response 200 (Raw [])]) gns3 ?s
           = (None, set_id [] (?s\<lparr>sent := sent ?s @ [?req]\<rparr>))"
    by blast
  have n500: "(500::nat) \<noteq> 204 \<and> (500::nat) \<noteq> 404" and n200: "(200::nat) \<noteq> 204 \<and> (200::nat) \<noteq> 404"
    by simp_all
  have kinds: "CloudKind \<noteq> DockerKind \<and> CloudKind \<noteq> QemuKind"
    "SwitchKind \<noteq> DockerKind \<and> SwitchKind \<noteq> QemuKind"
    by simp_all
  from delete_status_policy [of CloudKind "scripted [Response 500 (Raw ''boom'')]" gns3 ?s 500
      "Raw ''boom''"] answers [of "Response 500 (Raw ''boom'')"] n500 kinds(1)
  have c: "\<exists>dt. Delete (resource CloudKind) (scripted [Response 500 (Raw ''boom'')]) gns3 ?s
           = (Some (StatusError OpDelete 500 dt), ?s\<lparr>sent := sent ?s @ [?req]\<rparr>)"
    by blast
  from delete_status_policy [of CloudKind "scripted [Response 200 (Raw [])]" gns3 ?s 200 "Raw []"]
    answers [of "Response 200 (Raw [])"] n200 kinds(1)
  have d: "\<exists>dt. Delete (resource CloudKind) (scripted [Response 200 (Raw [])]) gns3 ?s
           = (Some (StatusError OpDelete 200 dt), ?s\<lparr>sent := sent ?s @ [?req]\<rparr>)"
    by blast
  from delete_status_policy [of SwitchKind "scripted [Response 200 (Raw [])]" gns3 ?s 200 "Raw []"]
    answers [of "Response 200 (Raw [])"] n200 kinds(2)
  have e: "\<exists>dt. Delete (resource SwitchKind) (scripted [Response 200 (Raw [])]) gns3 ?s
           = (Some (StatusError OpDelete 200 dt), ?s\<lparr>sent := sent ?s @ [?req]\<rparr>)"
    by blast
  note results = a [unfolded cleared, unfolded req] b [unfolded cleared, unfolded req]
    c [unfolded kept, unfolded req] d [unfolded kept, unfolded req] e [unfolded kept, unfolded req]
  from results show ?thesis by blast
qed

text \<open>The QEMU Delete succeeds, and clears the identity, on an answer that is
  neither 204 nor 404.\<close>

theorem delete_status_counterexample:
  "respond (scripted [Response 200 (Raw [])])
     [node_request ''DELETE'' gns3 (resource_data ''n1'' [(''project_id'', AString ''p1'')] []) None]
   = Response 200 (Raw [])
   \<and> Delete (resource QemuKind) (scripted [Response 200 (Raw [])]) gns3
     (fresh (resource_data ''n1'' [(''project_id'', AString ''p1'')] []))
   = (None, \<lparr>res = resource_data [] [(''project_id'', AString ''p1'')] [],
             sent = [node_request ''DELETE'' gns3
                       (resource_data ''n1'' [(''project_id'', AString ''p1'')] []) None]\<rparr>)"
  by (simp add: resource_defs delete_defs fixture_defs http_defs node_url_def Get_string_def
        set_id_def SetId_def)

text \<open>Where the other kinds leave the template kind's policy: the cloud Delete
  reports a 404 answer as an error and keeps the identity, the Docker Delete
  succeeds on any answer.\<close>

lemma cloud_delete_not_found_is_error:
  "Delete (resource CloudKind) (scripted [Response 404 (Raw [])]) gns3
     (fresh (resource_data ''n1'' [(''project_id'', AString ''p1'')] []))
   = (Some (StatusError OpDelete 404 NoBody),
      \<lparr>res = resource_data ''n1'' [(''project_id'', AString ''p1'')] [],
       sent = [node_request ''DELETE'' gns3
                 (resource_data ''n1'' [(''project_id'', AString ''p1'')] []) None]\<rparr>)"
  by (simp add: resource_defs delete_defs fixture_defs http_defs node_url_def Get_string_def
        set_id_def SetId_def)

lemma docker_delete_ignores_status:
  "Delete (resource DockerKind) (scripted [Response 500 (Raw [])]) gns3
     (fresh (resource_data ''n1'' [(''project_id'', AString ''p1'')] []))
   = (None,
      \<lparr>res = resource_data [] [(''project_id'', AString ''p1'')] [],
       sent = [node_request ''DELETE'' gns3
                 (resource_data ''n1'' [(''project_id'', AString ''p1'')] []) None]\<rparr>)"
  by (simp add: resource_defs delete_defs fixture_defs http_defs node_url_def Get_string_def
        set_id_def SetId_def)

section \<open>Import\<close>

lemmas importer_defs = resourceGns3CloudImporter_def resourceGns3SwitchImporter_def
  resourceGns3TemplateImporter_def resourceGns3DockerImporter_def resourceQemuImporter_def

lemma SplitN2_at_first:
  "sep \<notin> set p \<Longrightarrow> strings_SplitN2 (p @ sep # n) sep = [p, n]"
  by (induction p) (auto simp: strings_SplitN2_def)

lemma SplitN2_absent:
  "sep \<notin> set raw \<Longrightarrow> strings_SplitN2 raw sep = [raw]"
  by (simp add: strings_SplitN2_def)

lemma import_finish_eq:
  "import_finish p n (d\<lparr>rid := raw\<rparr>) = Inr (d\<lparr>rid := n, attrs := (attrs d)(''project_id'' \<mapsto> AString p)\<rparr>)"
  by (simp add: import_finish_def SetId_def Set_attr_def)

lemma import_slash:
  assumes "CHR ''/'' \<notin> set p" and "k = QemuKind \<longrightarrow> CHR '','' \<notin> set p \<and> CHR '','' \<notin> set n"
  shows "Importer (resource k) (d\<lparr>rid := p @ CHR ''/'' # n\<rparr>)
         = Inr (d\<lparr>rid := n, attrs := (attrs d)(''project_id'' \<mapsto> AString p)\<rparr>)"
  using assms
  by (cases k)
    (simp_all add: resource_defs importer_defs SplitN2_at_first import_finish_eq
       strings_Contains_def index2_def Let_def)

lemma import_comma:
  assumes "CHR '','' \<notin> set n"
  shows "Importer (resource QemuKind) (d\<lparr>rid := n @ CHR '','' # p\<rparr>)
         = Inr (d\<lparr>rid := n, attrs := (attrs d)(''project_id'' \<mapsto> AString p)\<rparr>)"
  using assms
  by (simp_all add: resource_defs importer_defs SplitN2_at_first import_finish_eq
       strings_Contains_def index2_def Let_def)

lemma import_no_slash:
  assumes "CHR ''/'' \<notin> set raw" and "k \<noteq> QemuKind"
  shows "Importer (resource k) (d\<lparr>rid := raw\<rparr>) = Inl (InvalidImportId raw)"
  using assms
  by (cases k)
    (simp_all add: resource_defs importer_defs SplitN2_absent
       strings_Contains_def index2_def Let_def)

text \<open>
  C8. Every kind's Import turns the key \<open>proj1/node1\<close> into the project
  \<open>proj1\<close> and the identity \<open>node1\<close>, touching nothing else. The QEMU
  importer also takes \<open>node1,proj1\<close>, with the same result, and more
  generally any \<open>n,p\<close> where \<open>n\<close> has no comma. No other kind accepts the
  comma form: a key without \<open>/\<close> is refused with the format error.
\<close>

theorem import_key_forms:
  "Importer (resource k) (d\<lparr>rid := ''proj1/node1''\<rparr>)
     = Inr (d\<lparr>rid := ''node1'', attrs := (attrs d)(''project_id'' \<mapsto> AString ''proj1'')\<rparr>)
   \<and> Importer (resource QemuKind) (d\<lparr>rid := ''node1,proj1''\<rparr>)
     = Inr (d\<lparr>rid := ''node1'', attrs := (attrs d)(''project_id'' \<mapsto> AString ''proj1'')\<rparr>)
   \<and> Importer (resource QemuKind) (d\<lparr>rid := ''node1,proj1''\<rparr>)
     = Importer (resource QemuKind) (d\<lparr>rid := ''proj1/node1''\<rparr>)
   \<and> (k \<noteq> QemuKind \<longrightarrow>
        Importer (resource k) (d\<lparr>rid := ''node1,proj1''\<rparr>) = Inl (InvalidImportId ''node1,proj1''))
   \<and> (k \<noteq> QemuKind \<and> CHR ''/'' \<notin> set raw \<longrightarrow>
        Importer (resource k) (d\<lparr>rid := raw\<rparr>) = Inl (InvalidImportId raw))
   \<and> (CHR '','' \<notin> set n \<longrightarrow>
        Importer (resource QemuKind) (d\<lparr>rid := n @ '','' @ p\<rparr>)
        = Inr (d\<lparr>rid := n, attrs := (attrs d)(''project_id'' \<mapsto> AString p)\<rparr>))"
proof -
  have slash: "Importer (resource k') (d\<lparr>rid := ''proj1/node1''\<rparr>)
     = Inr (d\<lparr>rid := ''node1'', attrs := (attrs d)(''project_id'' \<mapsto> AString ''proj1'')\<rparr>)" for k'
    using import_slash [where p = "''proj1''" and k = k' and n = "''node1''" and d = d] by simp
  have comma: "Importer (resource QemuKind) (d\<lparr>rid := ''node1,proj1''\<rparr>)
     = Inr (d\<lparr>rid := ''node1'', attrs := (attrs d)(''project_id'' \<mapsto> AString ''proj1'')\<rparr>)"
    using import_comma [where n = "''node1''" and d = d and p = "''proj1''"] by simp
  have rejected: "k \<noteq> QemuKind \<Longrightarrow>
        Importer (resource k) (d\<lparr>rid := ''node1,proj1''\<rparr>) = Inl (InvalidImportId ''node1,proj1'')"
    using import_no_slash [where raw = "''node1,proj1''" and k = k and d = d] by simp
  show ?thesis
    using slash [of k] slash [of QemuKind] comma rejected
      import_no_slash [where raw = raw and k = k and d = d]
      import_comma [where n = n and d = d and p = p]
    by simp
qed

theorem import_key_forms_witness:
  "Importer (resource DockerKind) (resource_data ''node1,proj1'' [] [])
     = Inl (InvalidImportId ''node1,proj1'')
   \<and> Importer (resource CloudKind) (resource_data ''no-separator'' [] [])
     = Inl (InvalidImportId ''no-separator'')
   \<and> Importer (resource QemuKind) (resource_data ''n-7,p-3'' [] [])
     = Inr (resource_data ''n-7'' [(''project_id'', AString ''p-3'')] [])"
  using
    import_key_forms [where k = DockerKind and d = "resource_data [] [] []"
      and raw = "''no-separator''" and n = "''n-7''" and p = "''p-3''"]
    import_key_forms [where k = CloudKind and d = "resource_data [] [] []"
      and raw = "''no-separator''" and n = "''n-7''" and p = "''p-3''"]
  by (simp add: resource_data_def)

text \<open>
  C10 (as amended). A key \<open>p/n\<close>, where \<open>p\<close> has no \<open>/\<close>, is imported as
  project \<open>p\<close> and identity \<open>n\<close> by every kind, with no check that either
  part is non-empty or that \<open>n\<close> is free of further separators; for the QEMU
  kind this holds when the key has no comma. A QEMU key with a comma is split
  at its first comma instead, into identity and project, whatever slashes it
  has.
\<close>

theorem import_slash_split:
  "(CHR ''/'' \<notin> set p \<and> (k = QemuKind \<longrightarrow> CHR '','' \<notin> set (p @ ''/'' @ n)) \<longrightarrow>
      Importer (resource k) (d\<lparr>rid := p @ ''/'' @ n\<rparr>)
      = Inr (d\<lparr>rid := n, attrs := (attrs d)(''project_id'' \<mapsto> AString p)\<rparr>))
   \<and> (CHR '','' \<notin> set n \<longrightarrow>
      Importer (resource QemuKind) (d\<lparr>rid := n @ '','' @ p\<rparr>)
      = Inr (d\<lparr>rid := n, attrs := (attrs d)(''project_id'' \<mapsto> AString p)\<rparr>))"
  using import_slash [where p = p and k = k and n = n and d = d]
    import_comma [where n = n and d = d and p = p] by simp

theorem import_slash_split_witness:
  "Importer (resource CloudKind) (resource_data ''/n1'' [] [])
     = Inr (resource_data ''n1'' [(''project_id'', AString [])] [])
   \<and> Importer (resource TemplateKind) (resource_data ''p1/a/b'' [] [])
     = Inr (resource_data ''a/b'' [(''project_id'', AString ''p1'')] [])
   \<and> Importer (resource QemuKind) (resource_data ''p1/a/b'' [] [])
     = Inr (resource_data ''a/b'' [(''project_id'', AString ''p1'')] [])
   \<and> Importer (resource QemuKind) (resource_data ''n1,p1/x'' [] [])
     = Inr (resource_data ''n1'' [(''project_id'', AString ''p1/x'')] [])"
  using
    import_slash_split [where p = "[]" and k = CloudKind and n = "''n1''"
      and d = "resource_data [] [] []"]
    import_slash_split [where p = "''p1''" and k = TemplateKind and n = "''a/b''"
      and d = "resource_data [] [] []"]
    import_slash_split [where p = "''p1''" and k = QemuKind and n = "''a/b''"
      and d = "resource_data [] [] []"]
    import_slash_split [where p = "''p1/x''" and k = QemuKind and n = "''n1''"
      and d = "resource_data [] [] []"]
  by (simp add: resource_data_def)

text \<open>A key with a slash that the QEMU importer does not split at the slash.\<close>

theorem import_slash_counterexample:
  "CHR ''/'' \<in> set ''n1,p1/x''
   \<and> Importer (resource QemuKind) (resource_data ''n1,p1/x'' [] [])
     = Inr (resource_data ''n1'' [(''project_id'', AString ''p1/x'')] [])
   \<and> Importer (resource QemuKind) (resource_data ''n1,p1/x'' [] [])
     \<noteq> Inr (resource_data ''x'' [(''project_id'', AString ''n1,p1'')] [])"
  by (simp add: resource_defs importer_defs strings_Contains_def strings_SplitN2_def index2_def
        import_finish_def SetId_def Set_attr_def resource_data_def)

section \<open>Read and Update\<close>

lemmas read_defs = resourceGns3CloudRead_def resourceGns3SwitchRead_def
  resourceGns3TemplateRead_def resourceGns3DockerRead_def resourceGns3QemuRead_def

lemmas update_defs = resourceGns3CloudUpdate_def resourceGns3SwitchUpdate_def
  resourceGns3TemplateUpdate_def resourceGns3DockerUpdate_def resourceGns3QemuUpdate_def

lemmas update_map_defs = cloud_updateData_def switch_updateData_def template_updateData_def
  docker_updateData_def qemu_updateData_def qemu_update_properties_def assign_if_def

lemmas get_defs = Get_string_def Get_int_def Get_bool_def Get_map_def Get_list_def

lemma set_attr_frame [simp]:
  "rid (res (set_attr k v s)) = rid (res s)" "sent (set_attr k v s) = sent s"
  "HasChange (res (set_attr k v s)) = HasChange (res s)"
  by (simp_all add: set_attr_def Set_attr_def)

lemma set_id_frame [simp]:
  "rid (res (set_id v s)) = v" "sent (set_id v s) = sent s"
  "attrs (res (set_id v s)) = attrs (res s)"
  by (simp_all add: set_id_def SetId_def)

lemma Set_string_from_frame [simp]:
  "rid (res (Set_string_from k v s)) = rid (res s)" "sent (Set_string_from k v s) = sent s"
  by (simp_all add: Set_string_from_def split: option.splits json.splits)

lemma read_xy_frame [simp]:
  "rid (res (read_xy node s)) = rid (res s)" "sent (read_xy node s) = sent s"
  by (simp_all add: read_xy_def Let_def split: prod.splits)

lemma qemu_read_properties_frame [simp]:
  "rid (res (qemu_read_properties node s)) = rid (res s)"
  "sent (qemu_read_properties node s) = sent s"
  by (simp_all add: qemu_read_properties_def Let_def split: prod.splits)

text \<open>What Read does with the controller's answer.\<close>

lemma read_status_policy:
  fixes k w config s st b
  defines "get \<equiv> node_request ''GET'' config (res s) None"
  defines "R \<equiv> Read (resource k) w config s"
  assumes "buildable w get" and "respond w (sent s @ [get]) = Response st b"
  shows "(st = 404 \<longrightarrow> R = (None, set_id [] (s\<lparr>sent := sent s @ [get]\<rparr>))) \<and>
         (st \<noteq> 404 \<and> st \<noteq> 200 \<longrightarrow>
            R = (Some (StatusError OpRead st (if k = DockerKind then NoBody else RawBody b)),
                 s\<lparr>sent := sent s @ [get]\<rparr>))"
  using assms(3,4) unfolding get_def R_def
  by (cases k) (simp_all add: read_defs resource_defs http_defs Let_def)

lemma read_identity:
  fixes k w config s
  defines "get \<equiv> node_request ''GET'' config (res s) None"
  defines "R \<equiv> Read (resource k) w config s"
  shows "(fst R \<noteq> None \<longrightarrow> res (snd R) = res s) \<and>
         (rid (res (snd R)) \<noteq> rid (res s) \<longrightarrow>
            fst R = None \<and> rid (res (snd R)) = [] \<and> buildable w get \<and>
            sent (snd R) = sent s @ [get] \<and>
            (\<exists>b. respond w (sent s @ [get]) = Response 404 b))"
  unfolding get_def R_def
  by (cases k)
    (auto simp: read_defs resource_defs http_defs Let_def
          split: http_result.splits option.splits if_splits)


text \<open>Every Update has one shape: an optional early return, the PUT, the status
  check, and the closing Read.\<close>

lemma update_unfold:
  fixes k w config s
  defines "put \<equiv> update_request k config (res s)"
  defines "s' \<equiv> s\<lparr>sent := sent s @ [put]\<rparr>"
  shows "Update (resource k) w config s =
     (if k \<noteq> TemplateKind \<and> k \<noteq> DockerKind \<and> updateData k (res s) = [] then (None, s)
      else if \<not> buildable w put then (Some (RequestError OpUpdate), s)
      else case respond w (sent s @ [put]) of
             Failed \<Rightarrow> (Some (TransportError OpUpdate), s')
           | Response st b \<Rightarrow>
               if st \<noteq> 200
               then (Some (StatusError OpUpdate st (if k = TemplateKind then NoBody else RawBody b)), s')
               else Read (resource k) w config s')"
  unfolding put_def s'_def
  by (cases k)
    (simp_all add: update_defs resource_defs http_NewRequest_def client_Do_def node_request_def
       update_request_def json_Marshal_def Let_def split: http_result.splits)

lemma update_cases:
  fixes k w config s
  defines "put \<equiv> update_request k config (res s)"
  defines "s' \<equiv> s\<lparr>sent := sent s @ [put]\<rparr>"
  defines "R \<equiv> Update (resource k) w config s"
  obtains
    (noop) "k \<noteq> TemplateKind" "k \<noteq> DockerKind" "updateData k (res s) = []" "R = (None, s)"
  | (unbuilt) "\<not> buildable w put" "R = (Some (RequestError OpUpdate), s)"
  | (failed) "buildable w put" "respond w (sent s @ [put]) = Failed"
      "R = (Some (TransportError OpUpdate), s')"
  | (rejected) st b where "buildable w put" "respond w (sent s @ [put]) = Response st b"
      "st \<noteq> 200"
      "R = (Some (StatusError OpUpdate st (if k = TemplateKind then NoBody else RawBody b)), s')"
  | (reread) b where "buildable w put" "respond w (sent s @ [put]) = Response 200 b"
      "updateData k (res s) \<noteq> [] \<or> k = TemplateKind \<or> k = DockerKind"
      "R = Read (resource k) w config s'"
proof (cases "k \<noteq> TemplateKind \<and> k \<noteq> DockerKind \<and> updateData k (res s) = []")
  case True
  then show ?thesis using noop unfolding R_def update_unfold by simp
next
  case active: False
  show ?thesis
  proof (cases "buildable w put")
    case False
    then show ?thesis using active unbuilt unfolding R_def update_unfold put_def by simp
  next
    case True
    show ?thesis
    proof (cases "respond w (sent s @ [put])")
      case Failed
      then show ?thesis
        using active True failed unfolding R_def update_unfold put_def s'_def by simp
    next
      case (Response st b)
      show ?thesis
      proof (cases "st = 200")
        case True
        then show ?thesis
          using active \<open>buildable w put\<close> Response reread [of b]
          unfolding R_def update_unfold put_def s'_def by auto
      next
        case False
        then show ?thesis
          using active \<open>buildable w put\<close> Response rejected [of st b]
          unfolding R_def update_unfold put_def s'_def by simp
      qed
    qed
  qed
qed

text \<open>
  C9 (as amended). An Update that returns an error leaves the resource data,
  and so the identity, as it was. The identity changes in one situation only:
  the PUT was answered 200 and the GET of the closing Read was answered 404;
  the identity is then cleared and Update returns success. Whenever the
  controller answers so, that is what happens.
\<close>

theorem update_identity:
  fixes k w config s b1 b2
  defines "put \<equiv> update_request k config (res s)"
  defines "get \<equiv> node_request ''GET'' config (res s) None"
  defines "R \<equiv> Update (resource k) w config s"
  shows "(fst R \<noteq> None \<longrightarrow> res (snd R) = res s) \<and>
         (rid (res (snd R)) \<noteq> rid (res s) \<longrightarrow>
            fst R = None \<and> rid (res (snd R)) = [] \<and> sent (snd R) = sent s @ [put, get] \<and>
            (\<exists>b. respond w (sent s @ [put]) = Response 200 b) \<and>
            (\<exists>b. respond w (sent s @ [put, get]) = Response 404 b)) \<and>
         (buildable w put \<and> buildable w get \<and>
          (updateData k (res s) \<noteq> [] \<or> k = TemplateKind \<or> k = DockerKind) \<and>
          respond w (sent s @ [put]) = Response 200 b1 \<and>
          respond w (sent s @ [put, get]) = Response 404 b2 \<longrightarrow>
            R = (None, set_id [] (s\<lparr>sent := sent s @ [put, get]\<rparr>)))"
proof -
  let ?s' = "s\<lparr>sent := sent s @ [put]\<rparr>"
  have rd: "(fst (Read (resource k) w config ?s') \<noteq> None \<longrightarrow>
               res (snd (Read (resource k) w config ?s')) = res s) \<and>
            (rid (res (snd (Read (resource k) w config ?s'))) \<noteq> rid (res s) \<longrightarrow>
               fst (Read (resource k) w config ?s') = None \<and>
               rid (res (snd (Read (resource k) w config ?s'))) = [] \<and>
               sent (snd (Read (resource k) w config ?s')) = sent s @ [put, get] \<and>
               (\<exists>b. respond w (sent s @ [put, get]) = Response 404 b))"
    using read_identity [of k w config ?s'] by (simp add: get_def node_request_def)
  have rp: "buildable w get \<and> respond w (sent s @ [put, get]) = Response 404 b2 \<longrightarrow>
            Read (resource k) w config ?s' = (None, set_id [] (s\<lparr>sent := sent s @ [put, get]\<rparr>))"
    using read_status_policy [of w config ?s' 404 b2 k] by (simp add: get_def node_request_def)
  show ?thesis
  proof (cases k w config s rule: update_cases)
    case noop
    then show ?thesis by (simp add: R_def)
  next
    case unbuilt
    then show ?thesis by (simp add: R_def put_def)
  next
    case failed
    then show ?thesis by (simp add: R_def put_def)
  next
    case (rejected st b)
    then show ?thesis by (simp add: R_def put_def)
  next
    case (reread b)
    then have "R = Read (resource k) w config ?s'" by (simp add: R_def put_def)
    moreover have "respond w (sent s @ [put]) = Response 200 b"
      using reread by (simp add: put_def)
    ultimately show ?thesis using rd rp by auto
  qed
qed


lemma map_of_assign_if:
  "map_of (assign_if c k v m) key = (if c \<and> key = k then Some v else map_of m key)"
  by (simp add: assign_if_def update_conv')

lemma assign_if_Nil [simp]: "assign_if c k v m = [] \<longleftrightarrow> \<not> c \<and> m = []"
  by (cases m) (simp_all add: assign_if_def)

lemma distinct_assign_if [simp]:
  "distinct (map fst (assign_if c k v m)) = distinct (map fst m)"
  by (auto simp: assign_if_def update_keys)

lemma cloud_updateData_map:
  "map_of (cloud_updateData d) key =
     (if key \<in> set cloud_fields \<and> HasChange d key then Some (wire_value d key) else None)"
  by (auto simp: cloud_updateData_def Let_def map_of_assign_if cloud_fields_def wire_value_def
        int_fields_def)

lemma switch_updateData_map:
  "map_of (switch_updateData d) key =
     (if key \<in> set switch_fields \<and> HasChange d key then Some (wire_value d key) else None)"
  by (auto simp: switch_updateData_def Let_def map_of_assign_if switch_fields_def wire_value_def
        int_fields_def)

lemma qemu_update_properties_map:
  "map_of (qemu_update_properties d) key =
     (if key \<in> set qemu_nested_fields \<and> HasChange d key then Some (wire_value d key) else None)"
  by (auto simp: qemu_update_properties_def Let_def map_of_assign_if qemu_nested_fields_def
        wire_value_def int_fields_def)

lemma qemu_update_properties_Nil:
  "qemu_update_properties d = [] \<longleftrightarrow> (\<forall>f \<in> set qemu_nested_fields. \<not> HasChange d f)"
  by (auto simp: qemu_update_properties_def Let_def qemu_nested_fields_def)

lemma qemu_updateData_map:
  "map_of (qemu_updateData d) key =
     (if key \<in> set qemu_flat_fields \<and> HasChange d key then Some (wire_value d key)
      else if key = ''properties'' \<and> (\<exists>f \<in> set qemu_nested_fields. HasChange d f)
      then Some (JObject (qemu_update_properties d)) else None)"
  by (auto simp: qemu_updateData_def Let_def map_of_assign_if qemu_flat_fields_def
        wire_value_def int_fields_def qemu_update_properties_Nil)

lemma updateData_Nil:
  "cloud_updateData d = [] \<longleftrightarrow> (\<forall>f \<in> set cloud_fields. \<not> HasChange d f)"
  "switch_updateData d = [] \<longleftrightarrow> (\<forall>f \<in> set switch_fields. \<not> HasChange d f)"
  "qemu_updateData d = [] \<longleftrightarrow>
     (\<forall>f \<in> set qemu_flat_fields. \<not> HasChange d f) \<and> (\<forall>f \<in> set qemu_nested_fields. \<not> HasChange d f)"
  by (auto simp: cloud_updateData_def switch_updateData_def qemu_updateData_def Let_def
        cloud_fields_def switch_fields_def qemu_flat_fields_def qemu_update_properties_Nil)

lemma docker_updateData_map:
  "map_of (docker_updateData d) key =
     (if key = ''environment'' \<and> HasChange d ''environment''
      then Some (JString (format_environment (Get_map d ''environment''))) else None)"
  by (simp add: docker_updateData_def Let_def map_of_assign_if)


lemma updateData_distinct: "distinct (map fst (updateData k d))"
  by (cases k)
    (simp_all add: cloud_updateData_def switch_updateData_def template_updateData_def
       docker_updateData_def qemu_updateData_def Let_def)

text \<open>After the PUT, Update sends at most the GET of its closing Read, which
  has no body.\<close>

lemma read_sent:
  "\<exists>rest. sent (snd (Read (resource k) w config s)) = sent s @ rest \<and>
          (\<forall>r \<in> set rest. payload r = None)"
  by (cases k)
    (auto simp: read_defs resource_defs http_defs Let_def
          split: http_result.splits option.splits)

lemma update_sent:
  fixes k w config s
  defines "put \<equiv> update_request k config (res s)"
  defines "R \<equiv> Update (resource k) w config s"
  assumes "buildable w put"
    and "updateData k (res s) \<noteq> [] \<or> k = TemplateKind \<or> k = DockerKind"
  shows "\<exists>rest. sent (snd R) = sent s @ put # rest \<and> (\<forall>r \<in> set rest. payload r = None)"
proof (cases k w config s rule: update_cases)
  case noop
  then show ?thesis using assms(4) by simp
next
  case unbuilt
  then show ?thesis using assms(3) by (simp add: put_def)
next
  case failed
  then show ?thesis by (simp add: R_def put_def)
next
  case (rejected st b)
  then show ?thesis by (simp add: R_def put_def)
next
  case (reread b)
  then show ?thesis
    using read_sent [of k w config "s\<lparr>sent := sent s @ [put]\<rparr>"]
    by (auto simp: R_def put_def)
qed


theorem update_identity_witness:
  "Update (resource CloudKind) (scripted [Response 200 (Raw []), Response 404 (Raw [])]) gns3
     (fresh (resource_data ''n1'' [(''project_id'', AString ''p1''), (''name'', AString ''c2'')]
        [''name'']))
   = (None,
      \<lparr>res = resource_data [] [(''project_id'', AString ''p1''), (''name'', AString ''c2'')]
               [''name''],
       sent = [\<lparr>Method = ''PUT'', URL = ''http://gns3:3080/v2/projects/p1/nodes/n1'',
                 payload = Some [(''name'', JString ''c2'')]\<rparr>,
               \<lparr>Method = ''GET'', URL = ''http://gns3:3080/v2/projects/p1/nodes/n1'',
                 payload = None\<rparr>]\<rparr>)"
  using update_identity [of CloudKind
      "scripted [Response 200 (Raw []), Response 404 (Raw [])]" gns3
      "fresh (resource_data ''n1'' [(''project_id'', AString ''p1''), (''name'', AString ''c2'')]
         [''name''])" "Raw []" "Raw []"]
  by (simp add: fixture_defs node_request_def update_request_def node_url_def get_defs
        update_map_defs Let_def set_id_def SetId_def)

text \<open>A cloud Update whose identity is \<open>n1\<close> before the call and empty after it.\<close>

theorem update_identity_counterexample:
  "rid (res (fresh (resource_data ''n1''
       [(''project_id'', AString ''p1''), (''name'', AString ''c2'')] [''name'']))) = ''n1''
   \<and> rid (res (snd (Update (resource CloudKind)
       (scripted [Response 200 (Raw []), Response 404 (Raw [])]) gns3
       (fresh (resource_data ''n1'' [(''project_id'', AString ''p1''), (''name'', AString ''c2'')]
          [''name''])))))
     = []"
  by (simp add: resource_defs update_defs read_defs fixture_defs http_defs node_url_def get_defs
        update_map_defs json_Marshal_def Let_def set_id_def SetId_def)

text \<open>
  C6, at the input where the code leaves the claim: the Docker Read answered
  500 with a body returns an error that carries the status code and nothing
  of the body.
\<close>

theorem docker_read_error_drops_body:
  "Read (resource DockerKind) (scripted [Response 500 (Raw ''internal error'')]) gns3
     (fresh (resource_data ''n1'' [(''project_id'', AString ''p1'')] []))
   = (Some (StatusError OpRead 500 NoBody),
      \<lparr>res = resource_data ''n1'' [(''project_id'', AString ''p1'')] [],
       sent = [\<lparr>Method = ''GET'', URL = ''http://gns3:3080/v2/projects/p1/nodes/n1'',
                 payload = None\<rparr>]\<rparr>)"
  by (simp add: resource_defs read_defs fixture_defs http_defs node_url_def get_defs Let_def)

text \<open>The same answer as the cloud Read reports it.\<close>

lemma cloud_read_error_shows_body:
  "Read (resource CloudKind) (scripted [Response 500 (Raw ''internal error'')]) gns3
     (fresh (resource_data ''n1'' [(''project_id'', AString ''p1'')] []))
   = (Some (StatusError OpRead 500 (RawBody (Raw ''internal error''))),
      \<lparr>res = resource_data ''n1'' [(''project_id'', AString ''p1'')] [],
       sent = [\<lparr>Method = ''GET'', URL = ''http://gns3:3080/v2/projects/p1/nodes/n1'',
                 payload = None\<rparr>]\<rparr>)"
  by (simp add: resource_defs read_defs fixture_defs http_defs node_url_def get_defs Let_def)

text \<open>
  C7. When \<open>start_command\<close> has changed, the Docker Update sends a PUT whose
  body is the update map as it stands when marshalled, which has no
  \<open>start_command\<close> entry; whatever else Update sends afterwards has no body at
  all. The entry with the new value is put into the map only by the
  assignment that follows the status check, and that map is never sent.
\<close>

theorem docker_update_drops_start_command:
  fixes w config s
  defines "d \<equiv> res s"
  defines "put \<equiv> update_request DockerKind config (res s)"
  defines "R \<equiv> Update (resource DockerKind) w config s"
  shows "HasChange d ''start_command'' \<and> buildable w put \<longrightarrow>
           Method put = ''PUT'' \<and> payload put = Some (docker_updateData d) \<and>
           map_of (docker_updateData d) ''start_command'' = None \<and>
           (\<exists>rest. sent (snd R) = sent s @ put # rest \<and> (\<forall>r \<in> set rest. payload r = None)) \<and>
           map_of (docker_stage_start_command d (docker_updateData d)) ''start_command''
             = Some (JString (Get_string d ''start_command''))"
  using update_sent [of w DockerKind config s]
  by (simp add: d_def put_def R_def update_request_def node_request_def docker_updateData_map
        docker_stage_start_command_def map_of_assign_if)

theorem docker_update_drops_start_command_witness:
  "sent (snd (Update (resource DockerKind) (scripted [Response 200 (Raw []), Response 200 (Raw [])])
      gns3
      (fresh (resource_data ''n1''
         [(''project_id'', AString ''p1''), (''start_command'', AString ''sleep 5'')]
         [''start_command'']))))
   = [\<lparr>Method = ''PUT'', URL = ''http://gns3:3080/v2/projects/p1/nodes/n1'', payload = Some []\<rparr>,
      \<lparr>Method = ''GET'', URL = ''http://gns3:3080/v2/projects/p1/nodes/n1'', payload = None\<rparr>]
   \<and> map_of (docker_stage_start_command
        (resource_data ''n1''
           [(''project_id'', AString ''p1''), (''start_command'', AString ''sleep 5'')]
           [''start_command''])
        (docker_updateData (resource_data ''n1''
           [(''project_id'', AString ''p1''), (''start_command'', AString ''sleep 5'')]
           [''start_command''])))
      ''start_command''
     = Some (JString ''sleep 5'')"
proof -
  let ?d = "resource_data ''n1''
         [(''project_id'', AString ''p1''), (''start_command'', AString ''sleep 5'')]
         [''start_command'']"
  let ?w = "scripted [Response 200 (Raw []), Response 200 (Raw [])]"
  have changed: "HasChange ?d ''start_command''" by (simp add: resource_data_def)
  have built: "buildable ?w (update_request DockerKind gns3 (res (fresh ?d)))"
    by (simp add: scripted_def)
  have run: "sent (snd (Update (resource DockerKind) ?w gns3 (fresh ?d)))
     = [\<lparr>Method = ''PUT'', URL = ''http://gns3:3080/v2/projects/p1/nodes/n1'', payload = Some []\<rparr>,
        \<lparr>Method = ''GET'', URL = ''http://gns3:3080/v2/projects/p1/nodes/n1'', payload = None\<rparr>]"
    by (simp add: resource_defs update_defs read_defs fixture_defs http_defs node_url_def get_defs
        update_map_defs json_Marshal_def Let_def)
  from docker_update_drops_start_command [of "fresh ?d" ?w gns3] changed built
  have "map_of (docker_stage_start_command ?d (docker_updateData ?d)) ''start_command''
        = Some (JString (Get_string ?d ''start_command''))"
    by (simp add: fresh_def)
  then show ?thesis using run by (simp add: resource_data_def Get_string_def)
qed

section \<open>The update payload\<close>

lemma update_noop:
  assumes "k = CloudKind \<or> k = SwitchKind \<or> k = QemuKind"
    and "updateData k (res s) = []"
  shows "Update (resource k) w config s = (None, s)"
  using assms by (auto simp: update_unfold)

lemma unchanged_updateData:
  assumes "k = CloudKind \<or> k = SwitchKind \<or> k = QemuKind"
    and "\<forall>key. \<not> HasChange d key"
  shows "updateData k d = []"
  using assms by (auto simp: updateData_Nil)

lemma only_changed_keys:
  assumes "k = CloudKind \<or> k = SwitchKind \<or> k = QemuKind"
  shows "(\<forall>key v. map_of (updateData k d) key = Some v \<and> key \<noteq> ''properties'' \<longrightarrow>
            HasChange d key \<and> v = wire_value d key) \<and>
         (\<forall>props key v. map_of (updateData k d) ''properties'' = Some (JObject props) \<and>
            map_of props key = Some v \<longrightarrow> HasChange d key \<and> v = wire_value d key)"
  using assms
  by (auto simp: cloud_updateData_map switch_updateData_map qemu_updateData_map
        qemu_update_properties_map cloud_fields_def switch_fields_def qemu_flat_fields_def
        split: if_splits)

text \<open>
  C2 (as amended). For the cloud, switch and QEMU kinds, each attribute the
  kind's Update examines is in the update map exactly when it is marked
  changed, with its current value (for the QEMU kind the nested attributes
  sit in the map under \<open>properties\<close>, which is present exactly when one of
  them changed); every entry of the map, at the top level or under
  \<open>properties\<close>, is an attribute marked changed; when no attribute is marked
  changed, or the map is empty, Update returns success having sent nothing;
  otherwise the PUT carries the map, and nothing sent after it has a body.
  The template kind computes no delta: its map always holds \<open>name\<close>,
  \<open>compute_id\<close>, \<open>x\<close> and \<open>y\<close>, and the PUT is always sent. The Docker kind
  is left out.
\<close>

theorem update_minimal_delta:
  fixes k w config s
  defines "d \<equiv> res s"
  defines "U \<equiv> updateData k (res s)"
  defines "put \<equiv> update_request k config (res s)"
  defines "R \<equiv> Update (resource k) w config s"
  shows "(k = CloudKind \<longrightarrow>
            (\<forall>key \<in> set cloud_fields.
               map_of U key = (if HasChange d key then Some (wire_value d key) else None))) \<and>
         (k = SwitchKind \<longrightarrow>
            (\<forall>key \<in> set switch_fields.
               map_of U key = (if HasChange d key then Some (wire_value d key) else None))) \<and>
         (k = QemuKind \<longrightarrow>
            (\<forall>key \<in> set qemu_flat_fields.
               map_of U key = (if HasChange d key then Some (wire_value d key) else None)) \<and>
            (\<forall>key \<in> set qemu_nested_fields.
               map_of (qemu_update_properties d) key
                 = (if HasChange d key then Some (wire_value d key) else None)) \<and>
            map_of U ''properties''
              = (if \<exists>f \<in> set qemu_nested_fields. HasChange d f
                 then Some (JObject (qemu_update_properties d)) else None)) \<and>
         (k = CloudKind \<or> k = SwitchKind \<or> k = QemuKind \<longrightarrow>
            (\<forall>key v. map_of U key = Some v \<and> key \<noteq> ''properties'' \<longrightarrow>
               HasChange d key \<and> v = wire_value d key) \<and>
            (\<forall>props key v. map_of U ''properties'' = Some (JObject props) \<and>
               map_of props key = Some v \<longrightarrow> HasChange d key \<and> v = wire_value d key) \<and>
            ((\<forall>key. \<not> HasChange d key) \<longrightarrow> R = (None, s)) \<and>
            (U = [] \<longrightarrow> R = (None, s)) \<and>
            (U \<noteq> [] \<and> buildable w put \<longrightarrow>
               Method put = ''PUT'' \<and> payload put = Some U \<and>
               (\<exists>rest. sent (snd R) = sent s @ put # rest \<and> (\<forall>r \<in> set rest. payload r = None)))) \<and>
         (k = TemplateKind \<longrightarrow>
            U = [(''name'', JString (Get_string d ''name'')),
                 (''compute_id'', JString (Get_string d ''compute_id'')),
                 (''x'', JNumber (Get_int d ''x'')), (''y'', JNumber (Get_int d ''y''))] \<and>
            (buildable w put \<longrightarrow>
               Method put = ''PUT'' \<and> payload put = Some U \<and>
               (\<exists>rest. sent (snd R) = sent s @ put # rest \<and> (\<forall>r \<in> set rest. payload r = None))))"
proof -
  have cloud: "k = CloudKind \<longrightarrow>
            (\<forall>key \<in> set cloud_fields.
               map_of U key = (if HasChange d key then Some (wire_value d key) else None))"
    by (simp add: U_def d_def cloud_updateData_map)
  have switch: "k = SwitchKind \<longrightarrow>
            (\<forall>key \<in> set switch_fields.
               map_of U key = (if HasChange d key then Some (wire_value d key) else None))"
    by (simp add: U_def d_def switch_updateData_map)
  have qemu: "k = QemuKind \<longrightarrow>
            (\<forall>key \<in> set qemu_flat_fields.
               map_of U key = (if HasChange d key then Some (wire_value d key) else None)) \<and>
            (\<forall>key \<in> set qemu_nested_fields.
               map_of (qemu_update_properties d) key
                 = (if HasChange d key then Some (wire_value d key) else None)) \<and>
            map_of U ''properties''
              = (if \<exists>f \<in> set qemu_nested_fields. HasChange d f
                 then Some (JObject (qemu_update_properties d)) else None)"
    by (simp add: U_def d_def qemu_updateData_map qemu_update_properties_map)
      (simp add: qemu_flat_fields_def)
  have sentp: "buildable w put \<and> (U \<noteq> [] \<or> k = TemplateKind) \<longrightarrow>
               Method put = ''PUT'' \<and> payload put = Some U \<and>
               (\<exists>rest. sent (snd R) = sent s @ put # rest \<and> (\<forall>r \<in> set rest. payload r = None))"
    using update_sent [of w k config s]
    by (auto simp: U_def put_def R_def update_request_def node_request_def)
  have delta: "k = CloudKind \<or> k = SwitchKind \<or> k = QemuKind \<longrightarrow>
            (\<forall>key v. map_of U key = Some v \<and> key \<noteq> ''properties'' \<longrightarrow>
               HasChange d key \<and> v = wire_value d key) \<and>
            (\<forall>props key v. map_of U ''properties'' = Some (JObject props) \<and>
               map_of props key = Some v \<longrightarrow> HasChange d key \<and> v = wire_value d key) \<and>
            ((\<forall>key. \<not> HasChange d key) \<longrightarrow> R = (None, s)) \<and>
            (U = [] \<longrightarrow> R = (None, s))"
    using only_changed_keys [of k d] update_noop [of k s w config] unchanged_updateData [of k d]
    unfolding U_def d_def R_def by blast
  have template: "k = TemplateKind \<longrightarrow>
            U = [(''name'', JString (Get_string d ''name'')),
                 (''compute_id'', JString (Get_string d ''compute_id'')),
                 (''x'', JNumber (Get_int d ''x'')), (''y'', JNumber (Get_int d ''y''))]"
    by (simp add: U_def d_def template_updateData_def)
  from cloud switch qemu sentp delta template show ?thesis by blast
qed


theorem update_minimal_delta_witness:
  "Update (resource QemuKind) (scripted []) gns3
     (fresh (resource_data ''n1'' [(''project_id'', AString ''p1''), (''name'', AString ''vm'')] []))
   = (None,
      fresh (resource_data ''n1'' [(''project_id'', AString ''p1''), (''name'', AString ''vm'')] []))
   \<and> map_of (updateData CloudKind
        (resource_data ''n1'' [(''name'', AString ''c2''), (''x'', AInt 7)] [''name'']))
        ''name''
     = Some (JString ''c2'')
   \<and> map_of (updateData CloudKind
        (resource_data ''n1'' [(''name'', AString ''c2''), (''x'', AInt 7)] [''name'']))
        ''x''
     = None"
proof -
  let ?q = "fresh (resource_data ''n1''
              [(''project_id'', AString ''p1''), (''name'', AString ''vm'')] [])"
  let ?c = "resource_data ''n1'' [(''name'', AString ''c2''), (''x'', AInt 7)] [''name'']"
  have unchanged: "\<forall>key. \<not> HasChange (res ?q) key"
    by (simp add: fixture_defs)
  from update_minimal_delta [of QemuKind ?q "scripted []" gns3]
  have "(\<forall>key. \<not> HasChange (res ?q) key) \<longrightarrow>
          Update (resource QemuKind) (scripted []) gns3 ?q = (None, ?q)"
    by blast
  with unchanged have noop: "Update (resource QemuKind) (scripted []) gns3 ?q = (None, ?q)"
    by blast
  from update_minimal_delta [of CloudKind "fresh ?c" "scripted []" gns3]
  have "\<forall>key \<in> set cloud_fields.
          map_of (updateData CloudKind (res (fresh ?c))) key
            = (if HasChange (res (fresh ?c)) key then Some (wire_value (res (fresh ?c)) key)
               else None)"
    by blast
  then have delta: "\<forall>key \<in> set cloud_fields.
          map_of (updateData CloudKind ?c) key
            = (if HasChange ?c key then Some (wire_value ?c key) else None)"
    by (simp add: fresh_def)
  have "''name'' \<in> set cloud_fields" "''x'' \<in> set cloud_fields"
    by (simp_all add: cloud_fields_def)
  with delta have
    "map_of (updateData CloudKind ?c) ''name''
       = (if HasChange ?c ''name'' then Some (wire_value ?c ''name'') else None)"
    "map_of (updateData CloudKind ?c) ''x''
       = (if HasChange ?c ''x'' then Some (wire_value ?c ''x'') else None)"
    by blast+
  moreover have "HasChange ?c ''name''" "\<not> HasChange ?c ''x''"
    "wire_value ?c ''name'' = JString ''c2''"
    by (simp_all add: resource_data_def wire_value_def int_fields_def get_defs)
  ultimately show ?thesis using noop by simp
qed

text \<open>A template Update with no attribute marked changed: it sends a PUT with
  all four attributes.\<close>

theorem update_minimal_delta_counterexample:
  "Update (resource TemplateKind) (scripted [Response 200 (Raw []), Response 404 (Raw [])]) gns3
     (fresh (resource_data ''n1''
        [(''project_id'', AString ''p1''), (''name'', AString ''t1''),
         (''compute_id'', AString ''local'')] []))
   = (None,
      \<lparr>res = resource_data []
         [(''project_id'', AString ''p1''), (''name'', AString ''t1''),
          (''compute_id'', AString ''local'')] [],
       sent = [\<lparr>Method = ''PUT'', URL = ''http://gns3:3080/v2/projects/p1/nodes/n1'',
                 payload = Some [(''name'', JString ''t1''), (''compute_id'', JString ''local''),
                                 (''x'', JNumber 0), (''y'', JNumber 0)]\<rparr>,
               \<lparr>Method = ''GET'', URL = ''http://gns3:3080/v2/projects/p1/nodes/n1'',
                 payload = None\<rparr>]\<rparr>)"
  by (simp add: resource_defs update_defs read_defs fixture_defs http_defs node_url_def get_defs
        update_map_defs json_Marshal_def Let_def set_id_def SetId_def)

text \<open>
  C4 (as amended). In the QEMU Update, a changed attribute of the nested
  group is not in the update map at the top level: it is in the map found
  under \<open>properties\<close>, with its current value. A changed flat attribute is
  at the top level with its current value and not under \<open>properties\<close>. The
  one map under \<open>properties\<close> collects all nested changes, and the whole
  update map is the body of a single PUT; nothing sent after it has a body.
\<close>

theorem qemu_update_nesting:
  fixes w config s f
  defines "d \<equiv> res s"
  defines "U \<equiv> updateData QemuKind (res s)"
  defines "put \<equiv> update_request QemuKind config (res s)"
  defines "R \<equiv> Update (resource QemuKind) w config s"
  shows "(f \<in> set qemu_nested_fields \<and> HasChange d f \<longrightarrow>
            map_of U f = None \<and>
            map_of U ''properties'' = Some (JObject (qemu_update_properties d)) \<and>
            map_of (qemu_update_properties d) f = Some (wire_value d f)) \<and>
         (f \<in> set qemu_flat_fields \<and> HasChange d f \<longrightarrow>
            map_of U f = Some (wire_value d f) \<and>
            map_of (qemu_update_properties d) f = None) \<and>
         (map_of U ''properties'' = None \<or>
          map_of U ''properties'' = Some (JObject (qemu_update_properties d))) \<and>
         (U \<noteq> [] \<and> buildable w put \<longrightarrow>
            Method put = ''PUT'' \<and> payload put = Some U \<and>
            (\<exists>rest. sent (snd R) = sent s @ put # rest \<and> (\<forall>r \<in> set rest. payload r = None)))"
proof -
  have nested: "f \<in> set qemu_nested_fields \<and> HasChange d f \<longrightarrow>
            map_of U f = None \<and>
            map_of U ''properties'' = Some (JObject (qemu_update_properties d)) \<and>
            map_of (qemu_update_properties d) f = Some (wire_value d f)"
    by (auto simp: U_def d_def qemu_updateData_map qemu_update_properties_map
          qemu_flat_fields_def qemu_nested_fields_def)
  have flat: "f \<in> set qemu_flat_fields \<and> HasChange d f \<longrightarrow>
            map_of U f = Some (wire_value d f) \<and>
            map_of (qemu_update_properties d) f = None"
    by (auto simp: U_def d_def qemu_updateData_map qemu_update_properties_map
          qemu_flat_fields_def qemu_nested_fields_def)
  have props: "map_of U ''properties'' = None \<or>
          map_of U ''properties'' = Some (JObject (qemu_update_properties d))"
    by (simp add: U_def d_def qemu_updateData_map qemu_flat_fields_def)
  have single: "U \<noteq> [] \<and> buildable w put \<longrightarrow>
            Method put = ''PUT'' \<and> payload put = Some U \<and>
            (\<exists>rest. sent (snd R) = sent s @ put # rest \<and> (\<forall>r \<in> set rest. payload r = None))"
    using update_sent [of w QemuKind config s]
    by (auto simp: U_def put_def R_def update_request_def node_request_def)
  from nested flat props single show ?thesis by blast
qed

theorem qemu_update_nesting_witness:
  "sent (snd (Update (resource QemuKind)
      (scripted [Response 200 (Raw []), Response 404 (Raw [])]) gns3
      (fresh (resource_data ''n1''
         [(''project_id'', AString ''p1''), (''name'', AString ''vm2''), (''ram'', AInt 512)]
         [''name'', ''ram'']))))
   = [\<lparr>Method = ''PUT'', URL = ''http://gns3:3080/v2/projects/p1/nodes/n1'',
        payload = Some [(''name'', JString ''vm2''),
                        (''properties'', JObject [(''ram'', JNumber 512)])]\<rparr>,
      \<lparr>Method = ''GET'', URL = ''http://gns3:3080/v2/projects/p1/nodes/n1'', payload = None\<rparr>]
   \<and> map_of (updateData QemuKind (resource_data ''n1''
         [(''project_id'', AString ''p1''), (''name'', AString ''vm2''), (''ram'', AInt 512)]
         [''name'', ''ram''])) ''ram'' = None
   \<and> map_of (qemu_update_properties (resource_data ''n1''
         [(''project_id'', AString ''p1''), (''name'', AString ''vm2''), (''ram'', AInt 512)]
         [''name'', ''ram''])) ''ram'' = Some (JNumber 512)
   \<and> map_of (updateData QemuKind (resource_data ''n1''
         [(''project_id'', AString ''p1''), (''name'', AString ''vm2''), (''ram'', AInt 512)]
         [''name'', ''ram''])) ''name'' = Some (JString ''vm2'')
   \<and> map_of (qemu_update_properties (resource_data ''n1''
         [(''project_id'', AString ''p1''), (''name'', AString ''vm2''), (''ram'', AInt 512)]
         [''name'', ''ram''])) ''name'' = None"
proof -
  let ?d = "resource_data ''n1''
         [(''project_id'', AString ''p1''), (''name'', AString ''vm2''), (''ram'', AInt 512)]
         [''name'', ''ram'']"
  let ?w = "scripted [Response 200 (Raw []), Response 404 (Raw [])]"
  have run: "sent (snd (Update (resource QemuKind) ?w gns3 (fresh ?d)))
   = [\<lparr>Method = ''PUT'', URL = ''http://gns3:3080/v2/projects/p1/nodes/n1'',
        payload = Some [(''name'', JString ''vm2''),
                        (''properties'', JObject [(''ram'', JNumber 512)])]\<rparr>,
      \<lparr>Method = ''GET'', URL = ''http://gns3:3080/v2/projects/p1/nodes/n1'', payload = None\<rparr>]"
    by (simp add: resource_defs update_defs read_defs fixture_defs http_defs node_url_def get_defs
        update_map_defs json_Marshal_def Let_def set_id_def SetId_def)
  have ram: "''ram'' \<in> set qemu_nested_fields \<and> HasChange ?d ''ram''"
    by (simp add: qemu_nested_fields_def resource_data_def)
  have name: "''name'' \<in> set qemu_flat_fields \<and> HasChange ?d ''name''"
    by (simp add: qemu_flat_fields_def resource_data_def)
  have wv: "wire_value ?d ''ram'' = JNumber 512" "wire_value ?d ''name'' = JString ''vm2''"
    by (simp_all add: wire_value_def int_fields_def get_defs resource_data_def)
  from qemu_update_nesting [of "''ram''" "fresh ?d" ?w gns3] ram
  have a: "map_of (updateData QemuKind ?d) ''ram'' = None"
    "map_of (qemu_update_properties ?d) ''ram'' = Some (wire_value ?d ''ram'')"
    by (simp_all add: fresh_def)
  from qemu_update_nesting [of "''name''" "fresh ?d" ?w gns3] name
  have b: "map_of (updateData QemuKind ?d) ''name'' = Some (wire_value ?d ''name'')"
    "map_of (qemu_update_properties ?d) ''name'' = None"
    by (simp_all add: fresh_def)
  from run a b wv show ?thesis by simp
qed

text \<open>A Docker Update where the flat attribute \<open>x\<close> has changed: the PUT body
  is the empty map.\<close>

theorem nested_update_counterexample:
  "HasChange (resource_data ''n1'' [(''project_id'', AString ''p1''), (''x'', AInt 40)] [''x'']) ''x''
   \<and> sent (snd (Update (resource DockerKind)
       (scripted [Response 200 (Raw []), Response 200 (Raw [])]) gns3
       (fresh (resource_data ''n1'' [(''project_id'', AString ''p1''), (''x'', AInt 40)] [''x'']))))
   = [\<lparr>Method = ''PUT'', URL = ''http://gns3:3080/v2/projects/p1/nodes/n1'', payload = Some []\<rparr>,
      \<lparr>Method = ''GET'', URL = ''http://gns3:3080/v2/projects/p1/nodes/n1'', payload = None\<rparr>]"
  by (simp add: resource_defs update_defs read_defs fixture_defs http_defs node_url_def get_defs
        update_map_defs json_Marshal_def Let_def set_id_def SetId_def)

text \<open>The Docker Update puts a changed environment at the top level of the
  PUT body, where the Docker Create nests it under \<open>properties\<close>.\<close>

lemma docker_update_environment_at_top_level:
  "sent (snd (Update (resource DockerKind)
       (scripted [Response 200 (Raw []), Response 200 (Raw [])]) gns3
       (fresh (resource_data ''n1''
          [(''project_id'', AString ''p1''), (''environment'', AMap [(''A'', ''1''), (''B'', ''2'')])]
          [''environment'']))))
   = [\<lparr>Method = ''PUT'', URL = ''http://gns3:3080/v2/projects/p1/nodes/n1'',
        payload = Some [(''environment'', JString ''A=1,B=2'')]\<rparr>,
      \<lparr>Method = ''GET'', URL = ''http://gns3:3080/v2/projects/p1/nodes/n1'', payload = None\<rparr>]"
  by (simp add: resource_defs update_defs read_defs fixture_defs http_defs node_url_def get_defs
        update_map_defs json_Marshal_def Let_def set_id_def SetId_def format_environment_def)

lemma docker_create_environment_nested:
  "docker_create_payload (resource_data []
      [(''name'', AString ''d1''), (''image'', AString ''alpine''),
       (''environment'', AMap [(''A'', ''1''), (''B'', ''2'')])] [])
   = [(''name'', JString ''d1''), (''node_type'', JString ''docker''),
      (''properties'', JObject [(''image'', JString ''alpine''),
                                (''environment'', JString ''A=1,B=2''),
                                (''console_type'', JString ''none'')])]"
  by (simp add: docker_create_payload_def marshal_DockerNode_def marshal_DockerProperties_def
        omitempty_string_def omitempty_int_def omitempty_ptr_def omitempty_list_def
        GetOk_map_def GetOk_list_def GetOk_string_def get_defs resource_data_def
        format_environment_def Let_def)

section \<open>Create\<close>

lemmas create_defs = resourceGns3CloudCreate_def resourceGns3SwitchCreate_def
  resourceGns3TemplateCreate_def resourceGns3DockerCreate_def resourceGns3QemuCreate_def

lemmas decode_defs = decode_map_def decode_map_lenient_def assert_string_def assert_number_def
  assert_object_def string_field_def int_field_def decode_Cloud_def decode_Switch_def

text \<open>An error of Read is one of Read's own, and leaves the resource data alone.\<close>

lemma read_error:
  assumes "fst (Read (resource k) w config s) = Some e"
  shows "res (snd (Read (resource k) w config s)) = res s \<and> post_create_error e \<and>
         (\<forall>st dt. e \<noteq> StatusError OpCreate st dt)"
  using assms
  by (cases k)
    (auto simp: read_defs resource_defs http_defs Let_def
          split: http_result.splits option.splits if_splits)

lemma qemu_read_error:
  assumes "fst (resourceGns3QemuRead w config s) = Some e"
  shows "res (snd (resourceGns3QemuRead w config s)) = res s \<and> post_create_error e \<and>
         (\<forall>st dt. e \<noteq> StatusError OpCreate st dt)"
  using read_error [of QemuKind w config s e] assms by (simp add: resourceGns3Qemu_def)

text \<open>The start step leaves the resource data alone, and its errors are its own.\<close>

lemma template_start_frame [simp]:
  "res (snd (template_start w h p n s)) = res s"
  by (simp add: template_start_def http_defs Let_def split: http_result.splits)

lemma docker_start_frame [simp]:
  "res (snd (docker_start w h p n s)) = res s"
  by (simp add: docker_start_def http_defs Let_def split: http_result.splits)

lemma qemu_start_frame [simp]:
  "res (snd (qemu_start w h p n s)) = res s"
  by (simp add: qemu_start_def http_defs Let_def split: http_result.splits)

lemma template_start_error:
  "fst (template_start w h p n s) = Some e \<Longrightarrow>
     post_create_error e \<and> (\<forall>st dt. e \<noteq> StatusError OpCreate st dt)"
  by (auto simp: template_start_def http_defs Let_def split: http_result.splits if_splits)

lemma docker_start_error:
  "fst (docker_start w h p n s) = Some e \<Longrightarrow>
     post_create_error e \<and> (\<forall>st dt. e \<noteq> StatusError OpCreate st dt)"
  by (auto simp: docker_start_def http_defs Let_def split: http_result.splits if_splits)

lemma qemu_start_error:
  "fst (qemu_start w h p n s) = Some e \<Longrightarrow>
     post_create_error e \<and> (\<forall>st dt. e \<noteq> StatusError OpCreate st dt)"
  by (auto simp: qemu_start_def http_defs Let_def split: http_result.splits if_splits)









lemma cloud_create_failure:
  "fst (resourceGns3CloudCreate w config s) = Some e \<Longrightarrow>
     res (snd (resourceGns3CloudCreate w config s)) = res s \<and> \<not> post_create_error e"
  by (auto simp: resourceGns3CloudCreate_def http_defs json_Marshal_def Let_def
        split: option.splits http_result.splits if_splits)

lemma switch_create_failure:
  "fst (resourceGns3SwitchCreate w config s) = Some e \<Longrightarrow>
     res (snd (resourceGns3SwitchCreate w config s)) = res s \<and> \<not> post_create_error e"
  by (auto simp: resourceGns3SwitchCreate_def http_defs json_Marshal_def Let_def
        split: option.splits http_result.splits if_splits)

lemma template_create_failure:
  "fst (resourceGns3TemplateCreate w config s) = Some e \<Longrightarrow>
     (if post_create_error e then rid (res (snd (resourceGns3TemplateCreate w config s))) \<noteq> []
      else res (snd (resourceGns3TemplateCreate w config s)) = res s)"
  by (auto simp: resourceGns3TemplateCreate_def http_defs json_Marshal_def Let_def
        split: option.splits http_result.splits if_splits prod.splits
        dest: template_start_error)

lemma docker_create_failure:
  "fst (resourceGns3DockerCreate w config s) = Some e \<Longrightarrow>
     (if post_create_error e then rid (res (snd (resourceGns3DockerCreate w config s))) \<noteq> []
      else res (snd (resourceGns3DockerCreate w config s)) = res s)"
  by (auto simp: resourceGns3DockerCreate_def http_defs json_Marshal_def Let_def
        split: option.splits http_result.splits if_splits prod.splits
        dest: docker_start_error)

text \<open>The QEMU Create after the identity is assigned: the start step, then Read.\<close>

lemma qemu_create_tail:
  assumes "n \<noteq> []"
    and "fst (case qemu_start w h p n (set_id n s1) of
                (Some startErr, s3) \<Rightarrow> (Some startErr, s3)
              | (None, s3) \<Rightarrow> resourceGns3QemuRead w config s3) = Some e"
  shows "post_create_error e \<and>
         rid (res (snd (case qemu_start w h p n (set_id n s1) of
                          (Some startErr, s3) \<Rightarrow> (Some startErr, s3)
                        | (None, s3) \<Rightarrow> resourceGns3QemuRead w config s3))) \<noteq> []"
proof (cases "qemu_start w h p n (set_id n s1)")
  case (Pair r s3)
  have frame: "res s3 = res (set_id n s1)"
    using qemu_start_frame [of w h p n "set_id n s1"] Pair by simp
  show ?thesis
  proof (cases r)
    case None
    then show ?thesis
      using assms Pair frame qemu_read_error [of w config s3 e] by simp
  next
    case (Some startErr)
    then show ?thesis
      using assms Pair frame qemu_start_error [of w h p n "set_id n s1" e] by simp
  qed
qed

lemma qemu_create_failure:
  assumes "fst (resourceGns3QemuCreate w config s) = Some e"
  shows "if post_create_error e then rid (res (snd (resourceGns3QemuCreate w config s))) \<noteq> []
         else res (snd (resourceGns3QemuCreate w config s)) = res s"
proof -
  define tail where "tail n s1 =
    (case qemu_start w (Host config) (Get_string (res s) ''project_id'') n (set_id n s1) of
       (Some startErr, s3) \<Rightarrow> (Some startErr, s3)
     | (None, s3) \<Rightarrow> resourceGns3QemuRead w config s3)" for n s1
  have tail_error: "post_create_error e' \<and> rid (res (snd (tail n s1))) \<noteq> []"
    if "n \<noteq> []" and "fst (tail n s1) = Some e'" for n s1 e'
    using qemu_create_tail [where n = n and w = w and h = "Host config"
        and p = "Get_string (res s) ''project_id''" and ?s1.0 = s1 and config = config and e = e']
      that
    unfolding tail_def by simp
  have unfold: "resourceGns3QemuCreate w config s =
    (case http_Post w (nodes_url (Host config) (Get_string (res s) ''project_id''))
            (Some (qemu_create_payload (res s))) s of
       (Failed, s1) \<Rightarrow> (Some (TransportError OpCreate), s1)
     | (Response status b, s1) \<Rightarrow>
         if status \<noteq> 201 \<and> status \<noteq> 200
         then (Some (StatusError OpCreate status (RawBody b)), s1)
         else (case decode_map b of
                 None \<Rightarrow> (Some (DecodeError OpCreate), s1)
               | Some result \<Rightarrow>
                   (case assert_string result ''node_id'' of
                      (nodeID, ok) \<Rightarrow>
                        if \<not> ok \<or> nodeID = [] then (Some MissingNodeId, s1)
                        else tail nodeID s1)))"
    unfolding resourceGns3QemuCreate_def json_Marshal_def Let_def tail_def by simp
  show ?thesis
    using assms unfolding unfold
    by (auto simp: http_defs Let_def
          split: option.splits http_result.splits if_splits prod.splits
          dest: tail_error)
qed

text \<open>
  C5 (as amended). A Create that fails with an error raised up to the
  identity check (marshalling, transport, rejected status, decoding, missing
  \<open>node_id\<close>) leaves the resource data, and so the empty identity,
  untouched; every failing cloud or switch Create is of this sort. An error
  of the start step, or of the Read that closes the QEMU Create, is returned
  with the identity already assigned: it is not empty.
\<close>

theorem create_failure_identity:
  fixes k w config s e
  defines "R \<equiv> Create (resource k) w config s"
  shows "(fst R = Some e \<and> \<not> post_create_error e \<longrightarrow> res (snd R) = res s) \<and>
         (fst R = Some e \<and> post_create_error e \<longrightarrow>
            rid (res (snd R)) \<noteq> [] \<and> k \<noteq> CloudKind \<and> k \<noteq> SwitchKind) \<and>
         ((k = CloudKind \<or> k = SwitchKind) \<and> fst R \<noteq> None \<longrightarrow> res (snd R) = res s)"
proof (cases k)
  case CloudKind
  then show ?thesis
    using cloud_create_failure [of w config s] by (auto simp: R_def resourceGns3Cloud_def)
next
  case SwitchKind
  then show ?thesis
    using switch_create_failure [of w config s] by (auto simp: R_def resourceGns3Switch_def)
next
  case TemplateKind
  then show ?thesis
    using template_create_failure [of w config s e]
    by (auto simp: R_def resourceGns3Template_def split: if_splits)
next
  case DockerKind
  then show ?thesis
    using docker_create_failure [of w config s e]
    by (auto simp: R_def resourceGns3Docker_def split: if_splits)
next
  case QemuKind
  then show ?thesis
    using qemu_create_failure [of w config s e]
    by (auto simp: R_def resourceGns3Qemu_def split: if_splits)
qed




text \<open>The template Create reports a rejected status without the body.\<close>

lemma template_create_error_has_no_body:
  "fst (Create (resource TemplateKind) (scripted [Response 409 (Raw ''conflict'')]) gns3
     (fresh (resource_data [] [(''project_id'', AString ''p1''), (''template_id'', AString ''t1'')] [])))
   = Some (StatusError OpCreate 409 NoBody)"
  by (simp add: resource_defs create_defs fixture_defs http_defs json_Marshal_def Let_def)

theorem create_failure_identity_witness:
  "res (snd (Create (resource CloudKind)
       (scripted [Response 201 (Doc (JObject [(''name'', JString ''c1'')]))]) gns3
       (fresh (resource_data [] [(''project_id'', AString ''p1''), (''name'', AString ''c1'')] []))))
   = resource_data [] [(''project_id'', AString ''p1''), (''name'', AString ''c1'')] []
   \<and> rid (res (snd (Create (resource TemplateKind)
       (scripted [Response 201 (Doc (JObject [(''node_id'', JString ''n-123'')])),
                  Response 500 (Raw [])]) gns3
       (fresh (resource_data [] [(''project_id'', AString ''p1''), (''start'', ABool True)] [])))))
     \<noteq> []"
proof -
  let ?c = "fresh (resource_data [] [(''project_id'', AString ''p1''), (''name'', AString ''c1'')] [])"
  let ?wc = "scripted [Response 201 (Doc (JObject [(''name'', JString ''c1'')]))]"
  let ?t = "fresh (resource_data [] [(''project_id'', AString ''p1''), (''start'', ABool True)] [])"
  let ?wt = "scripted [Response 201 (Doc (JObject [(''node_id'', JString ''n-123'')])),
                       Response 500 (Raw [])]"
  have cloud: "fst (Create (resource CloudKind) ?wc gns3 ?c) = Some MissingNodeId"
    by (simp add: resource_defs create_defs fixture_defs http_defs json_Marshal_def decode_defs
          Let_def)
  have template: "fst (Create (resource TemplateKind) ?wt gns3 ?t)
                  = Some (StatusError OpStart 500 NoBody)"
    by (simp add: resource_defs create_defs template_start_def fixture_defs http_defs
          json_Marshal_def decode_defs get_defs Let_def set_id_def SetId_def)
  from create_failure_identity [of CloudKind ?wc gns3 ?c MissingNodeId] cloud
  have a: "res (snd (Create (resource CloudKind) ?wc gns3 ?c)) = res ?c" by simp
  from create_failure_identity [of TemplateKind ?wt gns3 ?t "StatusError OpStart 500 NoBody"]
    template
  have b: "rid (res (snd (Create (resource TemplateKind) ?wt gns3 ?t))) \<noteq> []" by simp
  from a b show ?thesis by (simp add: fresh_def)
qed

text \<open>A template Create with \<open>start\<close> set whose start request is answered 500:
  it returns an error and the identity is \<open>n-123\<close>.\<close>

theorem create_failure_counterexample:
  "rid (res (fresh (resource_data [] [(''project_id'', AString ''p1''), (''start'', ABool True)] [])))
   = []
   \<and> Create (resource TemplateKind)
       (scripted [Response 201 (Doc (JObject [(''node_id'', JString ''n-123'')])),
                  Response 500 (Raw [])]) gns3
       (fresh (resource_data [] [(''project_id'', AString ''p1''), (''start'', ABool True)] []))
   = (Some (StatusError OpStart 500 NoBody),
      \<lparr>res = resource_data ''n-123'' [(''project_id'', AString ''p1''), (''start'', ABool True)] [],
       sent = [create_request TemplateKind gns3
                 (resource_data [] [(''project_id'', AString ''p1''), (''start'', ABool True)] []),
               \<lparr>Method = ''POST'', URL = ''http://gns3:3080/v2/projects/p1/nodes/n-123/start'',
                 payload = None\<rparr>]\<rparr>)"
  by (simp add: resource_defs create_defs template_start_def fixture_defs http_defs
        json_Marshal_def decode_defs get_defs Let_def set_id_def SetId_def
        start_url_def node_url_def)

end
